theory Spec2Isabelle
  imports Complex_Main "HOL-Library.Log_Nat" "HOL-Library.Multiset" "HOL-Library.AList"
begin

section \<open>JavaScript numbers\<close>

text \<open>
  A JavaScript Number is an IEEE 754 binary64 value: a finite value, NaN, or an infinity.
  A finite Number is modelled by the rational it denotes. The scores and totals of the
  application are array counts, which a Number holds exactly. The quotient
  \<^verbatim>\<open>score / total\<close> and the product with 100 are rounded to the nearest binary64 value,
  ties to even: \<open>roundToDouble\<close> maps a rational to the nearest value with a 53-bit
  significand (the quantum is \<open>2 ^ (e - 52)\<close> for a value in \<open>[2 ^ e, 2 ^ (e + 1))\<close>,
  and \<open>2 ^ - 1074\<close> below the normal range). A finite result too large for binary64
  cannot arise from the operands used here, and that overflow is not modelled; nor is
  the sign of zero (a count is never the negative zero).
\<close>

datatype number = Finite rat | NaN | Infinity | Negative_Infinity

definition pow2 :: "int \<Rightarrow> rat" where
  "pow2 e = (if 0 \<le> e then 2 ^ nat e else 1 / 2 ^ nat (- e))"

definition roundTiesToEven :: "rat \<Rightarrow> int" where
  "roundTiesToEven x =
     (let f = \<lfloor>x\<rfloor>; d = x - of_int f
      in if d < 1 / 2 then f
         else if 1 / 2 < d then f + 1
         else if even f then f else f + 1)"

text \<open>The exponent \<open>e\<close> with \<open>2 ^ e \<le> x < 2 ^ (e + 1)\<close>, for a positive \<open>x\<close>.\<close>

definition binade :: "rat \<Rightarrow> int" where
  "binade x =
     (let (a, b) = quotient_of x;
          e = bitlen a - bitlen b
      in if x < pow2 e then e - 1 else e)"

definition roundToDouble :: "rat \<Rightarrow> rat" where
  "roundToDouble x =
     (if x = 0 then 0
      else let q = pow2 (max (binade \<bar>x\<bar>) (- 1022) - 52)
           in of_int (roundTiesToEven (x / q)) * q)"

text \<open>
  The operators \<^verbatim>\<open>/\<close>, \<^verbatim>\<open>*\<close> and \<^verbatim>\<open>-\<close> on Numbers. Dividing by zero gives NaN for
  a zero dividend and an infinity otherwise; NaN spreads through every operation.
\<close>

fun Number_divide :: "number \<Rightarrow> number \<Rightarrow> number" where
  "Number_divide (Finite x) (Finite y) =
     (if y = 0 then (if x = 0 then NaN else if 0 < x then Infinity else Negative_Infinity)
      else Finite (roundToDouble (x / y)))"
| "Number_divide (Finite x) Infinity = Finite 0"
| "Number_divide (Finite x) Negative_Infinity = Finite 0"
| "Number_divide Infinity (Finite y) = (if 0 \<le> y then Infinity else Negative_Infinity)"
| "Number_divide Negative_Infinity (Finite y) = (if 0 \<le> y then Negative_Infinity else Infinity)"
| "Number_divide _ _ = NaN"

fun Number_multiply :: "number \<Rightarrow> number \<Rightarrow> number" where
  "Number_multiply (Finite x) (Finite y) = Finite (roundToDouble (x * y))"
| "Number_multiply (Finite x) Infinity =
     (if x = 0 then NaN else if 0 < x then Infinity else Negative_Infinity)"
| "Number_multiply (Finite x) Negative_Infinity =
     (if x = 0 then NaN else if 0 < x then Negative_Infinity else Infinity)"
| "Number_multiply Infinity (Finite y) =
     (if y = 0 then NaN else if 0 < y then Infinity else Negative_Infinity)"
| "Number_multiply Negative_Infinity (Finite y) =
     (if y = 0 then NaN else if 0 < y then Negative_Infinity else Infinity)"
| "Number_multiply Infinity Infinity = Infinity"
| "Number_multiply Infinity Negative_Infinity = Negative_Infinity"
| "Number_multiply Negative_Infinity Infinity = Negative_Infinity"
| "Number_multiply Negative_Infinity Negative_Infinity = Infinity"
| "Number_multiply _ _ = NaN"

fun Number_subtract :: "number \<Rightarrow> number \<Rightarrow> number" where
  "Number_subtract (Finite x) (Finite y) = Finite (roundToDouble (x - y))"
| "Number_subtract (Finite x) Infinity = Negative_Infinity"
| "Number_subtract (Finite x) Negative_Infinity = Infinity"
| "Number_subtract Infinity (Finite y) = Infinity"
| "Number_subtract Negative_Infinity (Finite y) = Negative_Infinity"
| "Number_subtract Infinity Negative_Infinity = Infinity"
| "Number_subtract Negative_Infinity Infinity = Negative_Infinity"
| "Number_subtract _ _ = NaN"

text \<open>The comparison \<^verbatim>\<open>>=\<close>: false whenever an operand is NaN.\<close>

fun Number_ge :: "number \<Rightarrow> number \<Rightarrow> bool" where
  "Number_ge (Finite x) (Finite y) = (y \<le> x)"
| "Number_ge NaN _ = False"
| "Number_ge _ NaN = False"
| "Number_ge Infinity _ = True"
| "Number_ge _ Negative_Infinity = True"
| "Number_ge _ _ = False"

text \<open>
  \<^verbatim>\<open>Math.round\<close>: the nearest integer, a tie going to the larger one; NaN and the
  infinities are returned as they are.
\<close>

fun Math_round :: "number \<Rightarrow> number" where
  "Math_round (Finite x) = Finite (of_int \<lfloor>x + 1 / 2\<rfloor>)"
| "Math_round NaN = NaN"
| "Math_round Infinity = Infinity"
| "Math_round Negative_Infinity = Negative_Infinity"

section \<open>Question records\<close>

text \<open>
  Three record shapes travel through the screens, all with a \<^verbatim>\<open>question\<close> text:
  \<^item> the generated shape \<^verbatim>\<open>{question, answer, distractors}\<close>, which the assessment
    screen and the file generator receive;
  \<^item> the assessment shape \<^verbatim>\<open>{question, options, correctAnswer}\<close>, to which a result
    adds \<^verbatim>\<open>userAnswer\<close>;
  \<^item> the preview shape \<^verbatim>\<open>{question, options, correct_answer}\<close> of the MCQ screen.
\<close>

record question_record =
  question :: string

record generated_mcq = question_record +
  answer :: string
  distractors :: "string list"

record options_record = question_record +
  options :: "string list"

record assessment_mcq = options_record +
  correctAnswer :: string

record result_record = assessment_mcq +
  userAnswer :: "string option"

record preview_mcq = options_record +
  correct_answer :: string

section \<open>The assessment screen (screens/MCQAssessmentScreen.js)\<close>

subsection \<open>Assembling the questions\<close>

text \<open>
  \<^verbatim>\<open>generatedMCQs.map(mcq => ({question: mcq.question,
      options: [mcq.answer, ...mcq.distractors], correctAnswer: mcq.answer}))\<close>
\<close>

definition MCQAssessmentScreen_format :: "generated_mcq \<Rightarrow> assessment_mcq" where
  "MCQAssessmentScreen_format mcq =
     \<lparr>question = question mcq,
      options = answer mcq # distractors mcq,
      correctAnswer = answer mcq\<rparr>"

definition MCQAssessmentScreen_formattedMcqs :: "generated_mcq list \<Rightarrow> assessment_mcq list" where
  "MCQAssessmentScreen_formattedMcqs generatedMCQs = map MCQAssessmentScreen_format generatedMCQs"

subsection \<open>Shuffling the options\<close>

text \<open>
  \<^verbatim>\<open>[...mcq.options].sort(() => 0.5 - Math.random())\<close>. The random source is the
  sequence of values \<^verbatim>\<open>Math.random()\<close> will return; a call takes the first and leaves
  the rest. The comparator ignores its arguments and answers
  \<^verbatim>\<open>0.5 - Math.random()\<close>.
\<close>

type_synonym random_source = "nat \<Rightarrow> rat"

definition Math_random :: "random_source \<Rightarrow> rat \<times> random_source" where
  "Math_random rnd = (rnd 0, \<lambda>n. rnd (Suc n))"

type_synonym 'a comparator = "'a \<Rightarrow> 'a \<Rightarrow> random_source \<Rightarrow> number \<times> random_source"

definition shuffle_compare :: "'a comparator" where
  "shuffle_compare a b rnd =
     (let (r, rnd') = Math_random rnd in (Number_subtract (Finite (1 / 2)) (Finite r), rnd'))"

text \<open>
  \<^verbatim>\<open>Array.prototype.sort\<close> belongs to the JavaScript engine, not to the application,
  and the language leaves its algorithm to the engine. It is a parameter of the model: a
  function from the comparator, the array and the random source to the sorted array and
  the random source left after the comparator's calls.
\<close>

type_synonym 'a array_sort = "'a comparator \<Rightarrow> 'a list \<Rightarrow> random_source \<Rightarrow> 'a list \<times> random_source"

text \<open>
  \<^verbatim>\<open>formattedMcqs.map(mcq => ({...mcq, options: shuffledOptions}))\<close>, the random source
  passing from one question to the next.
\<close>

fun shuffledMcqs ::
  "string array_sort \<Rightarrow> assessment_mcq list \<Rightarrow> random_source
    \<Rightarrow> assessment_mcq list \<times> random_source" where
  "shuffledMcqs Array_sort [] rnd = ([], rnd)"
| "shuffledMcqs Array_sort (mcq # rest) rnd =
     (let (shuffledOptions, rnd') = Array_sort shuffle_compare (options mcq) rnd;
          (rest', rnd'') = shuffledMcqs Array_sort rest rnd'
      in (mcq\<lparr>options := shuffledOptions\<rparr> # rest', rnd''))"

text \<open>
  The effect hook: with a non-empty \<^verbatim>\<open>generatedMCQs\<close> it sets the screen's \<^verbatim>\<open>mcqs\<close> to
  the shuffled questions, otherwise \<^verbatim>\<open>mcqs\<close> keeps its value (initially the empty list).
\<close>

definition MCQAssessmentScreen_useEffect ::
  "string array_sort \<Rightarrow> generated_mcq list \<Rightarrow> random_source \<Rightarrow> assessment_mcq list
    \<Rightarrow> assessment_mcq list" where
  "MCQAssessmentScreen_useEffect Array_sort generatedMCQs rnd mcqs =
     (if length generatedMCQs > 0
      then fst (shuffledMcqs Array_sort (MCQAssessmentScreen_formattedMcqs generatedMCQs) rnd)
      else mcqs)"

subsection \<open>Selecting and submitting\<close>

text \<open>
  \<^verbatim>\<open>selectedAnswers\<close> is an object keyed by question index. It is an association list
  here; a lookup \<^verbatim>\<open>selectedAnswers[index]\<close> of an absent key is \<^verbatim>\<open>undefined\<close>, that is
  \<open>None\<close>, and \<^verbatim>\<open>Object.keys(selectedAnswers).length\<close> counts the distinct keys.
\<close>

type_synonym selected_answers = "(nat \<times> string) list"

definition handleAnswer :: "selected_answers \<Rightarrow> nat \<Rightarrow> string \<Rightarrow> selected_answers" where
  "handleAnswer selectedAnswers questionIndex selectedOption =
     AList.update questionIndex selectedOption selectedAnswers"

definition Object_keys_length :: "selected_answers \<Rightarrow> nat" where
  "Object_keys_length selectedAnswers = length (remdups (map fst selectedAnswers))"

text \<open>
  \<^verbatim>\<open>mcqs.reduce((acc, mcq, index) =>
      acc + (selectedAnswers[index] === mcq.correctAnswer ? 1 : 0), 0)\<close>,
  as the loop over the array with its running index and accumulator.
\<close>

fun reduce_score :: "selected_answers \<Rightarrow> assessment_mcq list \<Rightarrow> nat \<Rightarrow> nat \<Rightarrow> nat" where
  "reduce_score selectedAnswers [] index acc = acc"
| "reduce_score selectedAnswers (mcq # rest) index acc =
     reduce_score selectedAnswers rest (index + 1)
       (acc + (if map_of selectedAnswers index = Some (correctAnswer mcq) then 1 else 0))"

text \<open>\<^verbatim>\<open>mcqs.map((mcq, index) => ({...mcq, userAnswer: selectedAnswers[index]}))\<close>\<close>

fun map_results :: "selected_answers \<Rightarrow> assessment_mcq list \<Rightarrow> nat \<Rightarrow> result_record list" where
  "map_results selectedAnswers [] index = []"
| "map_results selectedAnswers (mcq # rest) index =
     \<lparr>question = question mcq, options = options mcq, correctAnswer = correctAnswer mcq,
      userAnswer = map_of selectedAnswers index\<rparr>
     # map_results selectedAnswers rest (index + 1)"

record MCQResult_params =
  param_score :: nat
  param_total :: nat
  param_results :: "result_record list"

datatype submit_outcome =
    Alert_Incomplete
  | Navigate_MCQResult MCQResult_params

definition handleSubmit :: "assessment_mcq list \<Rightarrow> selected_answers \<Rightarrow> submit_outcome" where
  "handleSubmit mcqs selectedAnswers =
     (if Object_keys_length selectedAnswers < length mcqs then Alert_Incomplete
      else Navigate_MCQResult
        \<lparr>param_score = reduce_score selectedAnswers mcqs 0 0,
         param_total = length mcqs,
         param_results = map_results selectedAnswers mcqs 0\<rparr>)"

section \<open>The result screen (screens/MCQResultScreen.js)\<close>

text \<open>
  \<^verbatim>\<open>const { score = 0, total = 0, results = [] } = route.params || {}\<close>: absent
  parameters give the defaults.
\<close>

definition MCQResultScreen_percentage :: "nat \<Rightarrow> nat \<Rightarrow> number" where
  "MCQResultScreen_percentage score tot =
     (if tot > 0
      then Math_round (Number_multiply
             (Number_divide (Finite (of_nat score)) (Finite (of_nat tot))) (Finite 100))
      else Finite 0)"

definition MCQResultScreen_grade :: "number \<Rightarrow> string" where
  "MCQResultScreen_grade percentage =
     (if Number_ge percentage (Finite 90) then ''A''
      else if Number_ge percentage (Finite 80) then ''B''
      else if Number_ge percentage (Finite 70) then ''C''
      else if Number_ge percentage (Finite 60) then ''D''
      else ''F'')"

record MCQResult_view =
  view_grade :: string
  view_score :: nat
  view_total :: nat
  view_percentage :: number
  view_results :: "result_record list"

definition MCQResultScreen :: "MCQResult_params option \<Rightarrow> MCQResult_view" where
  "MCQResultScreen route_params =
     (let (score, tot, results) =
            (case route_params of
               None \<Rightarrow> (0, 0, [])
             | Some p \<Rightarrow> (param_score p, param_total p, param_results p));
          percentage = MCQResultScreen_percentage score tot
      in \<lparr>view_grade = MCQResultScreen_grade percentage,
          view_score = score,
          view_total = tot,
          view_percentage = percentage,
          view_results = results\<rparr>)"

section \<open>The MCQ preview screen (MCQScreen)\<close>

text \<open>
  \<^verbatim>\<open>mcqs.map(mcq => ({question: mcq.question, answer: mcq.correct_answer,
      distractors: mcq.options.filter(option => option !== mcq.correct_answer)}))\<close>
\<close>

definition formatMCQForDownload :: "preview_mcq \<Rightarrow> generated_mcq" where
  "formatMCQForDownload mcq =
     \<lparr>question = question mcq,
      answer = correct_answer mcq,
      distractors = filter (\<lambda>option. option \<noteq> correct_answer mcq) (options mcq)\<rparr>"

definition formatMCQsForDownload :: "preview_mcq list \<Rightarrow> generated_mcq list" where
  "formatMCQsForDownload mcqs = map formatMCQForDownload mcqs"

section \<open>Errors and strings\<close>

text \<open>
  A thrown value is an error object with its message. For a TypeError the engine raises
  itself (calling \<^verbatim>\<open>map\<close> on \<^verbatim>\<open>undefined\<close>) the message text depends on the engine;
  no code reads it, and it is left empty.
\<close>

datatype js_error = Error string | TypeError string

fun message :: "js_error \<Rightarrow> string" where
  "message (Error m) = m"
| "message (TypeError m) = m"

text \<open>\<^verbatim>\<open>String.prototype.includes\<close>\<close>

fun String_includes :: "string \<Rightarrow> string \<Rightarrow> bool" where
  "String_includes [] search = (search = [])"
| "String_includes (c # s) search =
     (take (length search) (c # s) = search \<or> String_includes s search)"

text \<open>The decimal digits of a non-negative integer, as a template literal prints it.\<close>

fun Number_toString :: "nat \<Rightarrow> string" where
  "Number_toString n =
     (if n < 10 then [''0123456789'' ! n]
      else Number_toString (n div 10) @ [''0123456789'' ! (n mod 10)])"

declare Number_toString.simps [simp del]

section \<open>The file generator (utils/pdfGenerator)\<close>

text \<open>
  The generator talks to the platform: the alert dialog, the console, the print service,
  the file system and the share sheet. A call is modelled by the list of platform calls it
  makes, in order, and its return value. The record \<open>platform\<close> says how each
  asynchronous platform call ends: with a value, or rejected with an error.

  A generated document is represented by the values its template literal interpolates;
  the fixed markup around them is not spelled out. The options passed to the share sheet
  (derived from the format alone) are not recorded.
\<close>

record platform =
  Date_getTime :: nat
  Date_toISOString :: string
  documentDirectory :: string
  printToFileAsync :: "js_error + string"
  writeAsStringAsync :: "js_error option"
  isAvailableAsync :: "js_error + bool"
  shareAsync :: "js_error option"

record report_content =
  doc_grade :: string
  doc_score :: nat
  doc_total :: nat
  doc_percentage :: number
  doc_results :: "result_record list"

datatype document =
    MCQ_html string "assessment_mcq list"
  | MCQ_text "assessment_mcq list"
  | Report_html report_content
  | Report_text report_content

datatype effect =
    Alert string string
  | Console_error string js_error
  | Print_printToFileAsync document
  | FileSystem_writeAsStringAsync string document
  | Sharing_shareAsync string

subsection \<open>generateMCQFile\<close>

text \<open>
  \<^verbatim>\<open>mcqs.map(mcq => ({question: mcq.question,
      options: [mcq.answer, ...mcq.distractors], correctAnswer: mcq.answer}))\<close>
\<close>

definition generateMCQFile_format :: "generated_mcq \<Rightarrow> assessment_mcq" where
  "generateMCQFile_format mcq =
     \<lparr>question = question mcq,
      options = answer mcq # distractors mcq,
      correctAnswer = answer mcq\<rparr>"

text \<open>
  The body of the \<^verbatim>\<open>try\<close> block: the platform calls made, and either the value returned
  or the error thrown. The argument \<open>mcqs\<close> is \<open>None\<close> when the caller passes
  \<^verbatim>\<open>undefined\<close> or \<^verbatim>\<open>null\<close>. The title is upper-cased where the HTML shows it.
\<close>

definition generateMCQFile_try ::
  "platform \<Rightarrow> generated_mcq list option \<Rightarrow> string \<Rightarrow> string \<Rightarrow> effect list \<times> (js_error + bool)" where
  "generateMCQFile_try env mcqs format title =
     (case mcqs of
        None \<Rightarrow> ([Alert ''Error'' ''No MCQs to download''], Inr False)
      | Some ms \<Rightarrow>
          if length ms = 0 then ([Alert ''Error'' ''No MCQs to download''], Inr False)
          else
            let timestamp = Date_getTime env;
                formattedMcqs = map generateMCQFile_format ms;
                (written, file) =
                  (if format = ''pdf''
                   then ([Print_printToFileAsync (MCQ_html title formattedMcqs)],
                         printToFileAsync env)
                   else
                     let fileUri = documentDirectory env @ ''mcq_'' @ Number_toString timestamp @ ''.txt''
                     in ([FileSystem_writeAsStringAsync fileUri (MCQ_text formattedMcqs)],
                         case writeAsStringAsync env of Some e \<Rightarrow> Inl e | None \<Rightarrow> Inr fileUri))
            in case file of
                 Inl e \<Rightarrow> (written, Inl e)
               | Inr fileUri \<Rightarrow>
                   (case isAvailableAsync env of
                      Inl e \<Rightarrow> (written, Inl e)
                    | Inr isAvailable \<Rightarrow>
                        if isAvailable
                        then (written @ [Sharing_shareAsync fileUri],
                              case shareAsync env of Some e \<Rightarrow> Inl e | None \<Rightarrow> Inr True)
                        else (written @ [Alert ''Error'' ''Sharing is not available on this device''],
                              Inr False)))"

definition generateMCQFile ::
  "platform \<Rightarrow> generated_mcq list option \<Rightarrow> string \<Rightarrow> string \<Rightarrow> effect list \<times> bool" where
  "generateMCQFile env mcqs format title =
     (case generateMCQFile_try env mcqs format title of
        (effects, Inr returned) \<Rightarrow> (effects, returned)
      | (effects, Inl error) \<Rightarrow>
          (effects @ [Console_error ''Error generating file:'' error,
                      Alert ''Error'' ''Failed to generate file. Please try again.''],
           False))"

subsection \<open>generateResultReport\<close>

definition generateResultReport_percentage :: "nat \<Rightarrow> nat \<Rightarrow> number" where
  "generateResultReport_percentage score tot =
     (if tot > 0
      then Math_round (Number_multiply
             (Number_divide (Finite (of_nat score)) (Finite (of_nat tot))) (Finite 100))
      else Finite 0)"

definition generateResultReport_grade :: "number \<Rightarrow> string" where
  "generateResultReport_grade percentage =
     (if Number_ge percentage (Finite 90) then ''A''
      else if Number_ge percentage (Finite 80) then ''B''
      else if Number_ge percentage (Finite 70) then ''C''
      else if Number_ge percentage (Finite 60) then ''D''
      else ''F'')"

text \<open>
  The template literal of the report. It calls \<^verbatim>\<open>results.map\<close>, which throws a TypeError
  when \<open>results\<close> is \<^verbatim>\<open>undefined\<close> or \<^verbatim>\<open>null\<close> (\<open>None\<close>).
\<close>

definition generateResultReport_content ::
  "result_record list option \<Rightarrow> nat \<Rightarrow> nat \<Rightarrow> js_error + report_content" where
  "generateResultReport_content results score tot =
     (let percentage = generateResultReport_percentage score tot;
          grade = generateResultReport_grade percentage
      in case results of
           None \<Rightarrow> Inl (TypeError [])
         | Some rs \<Rightarrow>
             Inr \<lparr>doc_grade = grade, doc_score = score, doc_total = tot,
                  doc_percentage = percentage, doc_results = rs\<rparr>)"

definition generateResultReport_try ::
  "platform \<Rightarrow> result_record list option \<Rightarrow> nat \<Rightarrow> nat \<Rightarrow> string \<Rightarrow> effect list \<times> (js_error + unit)" where
  "generateResultReport_try env results score tot format =
     (case generateResultReport_content results score tot of
        Inl e \<Rightarrow> ([], Inl e)
      | Inr content \<Rightarrow>
          let (written, file) =
                (if format = ''pdf''
                 then ([Print_printToFileAsync (Report_html content)], printToFileAsync env)
                 else
                   let fileName = ''MCQ_Assessment_Results_''
                         @ takeWhile (\<lambda>c. c \<noteq> CHR ''T'') (Date_toISOString env) @ ''.txt'';
                       fileUri = documentDirectory env @ fileName
                   in ([FileSystem_writeAsStringAsync fileUri (Report_text content)],
                       case writeAsStringAsync env of Some e \<Rightarrow> Inl e | None \<Rightarrow> Inr fileUri))
          in case file of
               Inl e \<Rightarrow> (written, Inl e)
             | Inr fileUri \<Rightarrow>
                 (case isAvailableAsync env of
                    Inl e \<Rightarrow> (written, Inl e)
                  | Inr isAvailable \<Rightarrow>
                      if isAvailable
                      then (written @ [Sharing_shareAsync fileUri],
                            case shareAsync env of Some e \<Rightarrow> Inl e | None \<Rightarrow> Inr ())
                      else (written @ [Alert ''Sharing not available''
                                         ''Sharing is not available on your device''],
                            Inr ())))"

definition generateResultReport ::
  "platform \<Rightarrow> result_record list option \<Rightarrow> nat \<Rightarrow> nat \<Rightarrow> string \<Rightarrow> effect list" where
  "generateResultReport env results score tot format =
     (case generateResultReport_try env results score tot format of
        (effects, Inr _) \<Rightarrow> effects
      | (effects, Inl error) \<Rightarrow>
          effects @ [Console_error ''Error generating assessment report:'' error,
                     Alert ''Error'' ''Failed to generate assessment report''])"

text \<open>What a call did, read off its platform calls.\<close>

fun generates_file :: "effect \<Rightarrow> bool" where
  "generates_file (Print_printToFileAsync doc) = True"
| "generates_file (FileSystem_writeAsStringAsync uri doc) = True"
| "generates_file _ = False"

fun shows_message :: "effect \<Rightarrow> bool" where
  "shows_message (Alert title text) = True"
| "shows_message _ = False"

fun written_document :: "effect \<Rightarrow> document option" where
  "written_document (Print_printToFileAsync doc) = Some doc"
| "written_document (FileSystem_writeAsStringAsync uri doc) = Some doc"
| "written_document _ = None"

fun report_of :: "document \<Rightarrow> report_content option" where
  "report_of (Report_html content) = Some content"
| "report_of (Report_text content) = Some content"
| "report_of _ = None"

section \<open>The API service (services/apiService.js)\<close>

definition getBaseUrl :: string where
  "getBaseUrl = ''http://192.168.1.16:8000''"

subsection \<open>generateMCQsFromAPI\<close>

text \<open>
  The network decides how a call ends: whether the device is connected, and which promise
  of \<^verbatim>\<open>Promise.race([fetchPromise, timeout])\<close> settles first. A response carries its
  \<^verbatim>\<open>ok\<close> flag and status, and the outcomes of reading its body as text and as JSON; of
  the JSON only the field \<^verbatim>\<open>mcqs\<close> is used (\<open>None\<close> when it is absent).
\<close>

record http_response =
  response_ok :: bool
  response_status :: nat
  response_text :: "js_error + string"
  response_json :: "js_error + generated_mcq list option"

datatype fetch_outcome = Fetch_rejected js_error | Fetch_response http_response

datatype race_outcome = Timeout_first | Fetch_first fetch_outcome

record network =
  isConnected :: bool
  race :: race_outcome

text \<open>The requests a call sends; console output is not recorded.\<close>

datatype api_call =
    NetInfo_fetch
  | HTTP_fetch string string nat

text \<open>The body of the \<^verbatim>\<open>try\<close> block, entered after the request has been sent.\<close>

definition generateMCQsFromAPI_try :: "network \<Rightarrow> js_error + generated_mcq list" where
  "generateMCQsFromAPI_try net =
     (case race net of
        Timeout_first \<Rightarrow> Inl (Error ''Request timeout after 60 seconds'')
      | Fetch_first (Fetch_rejected e) \<Rightarrow> Inl e
      | Fetch_first (Fetch_response response) \<Rightarrow>
          if \<not> response_ok response
          then (case response_text response of
                  Inl e \<Rightarrow> Inl e
                | Inr errorText \<Rightarrow>
                    Inl (Error (''Server error ('' @ Number_toString (response_status response)
                      @ ''): '' @ (if errorText = [] then ''Unknown error'' else errorText))))
          else (case response_json response of
                  Inl e \<Rightarrow> Inl e
                | Inr data_mcqs \<Rightarrow> Inr (case data_mcqs of None \<Rightarrow> [] | Some mcqs \<Rightarrow> mcqs)))"

text \<open>The \<^verbatim>\<open>catch\<close> block: every error caught is thrown again under a new message.\<close>

definition generateMCQsFromAPI_catch :: "js_error \<Rightarrow> js_error" where
  "generateMCQsFromAPI_catch error =
     (if String_includes (message error) ''timeout''
      then Error ''The server took too long to respond. Try with a shorter text or fewer questions.''
      else if String_includes (message error) ''Network request failed''
      then Error ''Cannot connect to server. Please check if the server is running and try again.''
      else Error (''Connection error: '' @ message error))"

definition generateMCQsFromAPI ::
  "network \<Rightarrow> string \<Rightarrow> nat \<Rightarrow> api_call list \<times> (js_error + generated_mcq list)" where
  "generateMCQsFromAPI net content numQuestions =
     (if \<not> isConnected net
      then ([NetInfo_fetch],
            Inl (Error ''No internet connection. Please check your network and try again.''))
      else
        ([NetInfo_fetch, HTTP_fetch (getBaseUrl @ ''/generate-mcqs'') content numQuestions],
         case generateMCQsFromAPI_try net of
           Inr mcqs \<Rightarrow> Inr mcqs
         | Inl error \<Rightarrow> Inl (generateMCQsFromAPI_catch error)))"

fun is_HTTP_fetch :: "api_call \<Rightarrow> bool" where
  "is_HTTP_fetch (HTTP_fetch url text num_questions) = True"
| "is_HTTP_fetch NetInfo_fetch = False"

text \<open>The failures of a request: a timeout, a rejected fetch, a response that is not ok.\<close>

fun request_fails :: "race_outcome \<Rightarrow> bool" where
  "request_fails Timeout_first = True"
| "request_fails (Fetch_first (Fetch_rejected e)) = True"
| "request_fails (Fetch_first (Fetch_response response)) = (\<not> response_ok response)"

subsection \<open>processFileWithWebSocket\<close>

text \<open>
  The run of one call is a state machine over the events the platform delivers: the
  socket opening, a message, a socket error, the socket closing, and the timer set by
  \<^verbatim>\<open>setTimeout(..., 60000)\<close> firing. The state holds \<^verbatim>\<open>wsService.ws\<close> (\<open>None\<close> for
  \<^verbatim>\<open>null\<close>, otherwise the socket's \<^verbatim>\<open>readyState\<close>), the state of the returned promise,
  the number of commands sent through the socket and the delay of the pending timer.
\<close>

datatype readyState = CONNECTING | OPEN | CLOSING | CLOSED

record ws_data =
  data_status :: "string option"
  data_message :: "string option"

datatype promise = Pending | Resolved ws_data | Rejected js_error

record process_state =
  ws :: "readyState option"
  promise :: promise
  sent :: nat
  timer :: "nat option"

text \<open>A promise settles once; later calls of \<^verbatim>\<open>resolve\<close> and \<^verbatim>\<open>reject\<close> change nothing.\<close>

definition resolve :: "ws_data \<Rightarrow> process_state \<Rightarrow> process_state" where
  "resolve data s = (if promise s = Pending then s\<lparr>promise := Resolved data\<rparr> else s)"

definition reject :: "js_error \<Rightarrow> process_state \<Rightarrow> process_state" where
  "reject error s = (if promise s = Pending then s\<lparr>promise := Rejected error\<rparr> else s)"

text \<open>
  \<^verbatim>\<open>disconnect() { if (this.ws && this.ws.readyState === WebSocket.OPEN) this.ws.close() }\<close>;
  closing an open socket puts it in the state CLOSING.
\<close>

definition disconnect :: "process_state \<Rightarrow> process_state" where
  "disconnect s = (if ws s = Some OPEN then s\<lparr>ws := Some CLOSING\<rparr> else s)"

definition sendMessage :: "process_state \<Rightarrow> process_state" where
  "sendMessage s = (if ws s \<noteq> Some OPEN then s else s\<lparr>sent := sent s + 1\<rparr>)"

text \<open>The callbacks that \<^verbatim>\<open>processFileWithWebSocket\<close> registers.\<close>

definition onOpen :: "process_state \<Rightarrow> process_state" where
  "onOpen s = sendMessage s"

definition onMessage :: "ws_data \<Rightarrow> process_state \<Rightarrow> process_state" where
  "onMessage data s =
     (if data_status data = Some ''complete'' then resolve data (disconnect s)
      else if data_status data = Some ''error''
      then reject (Error (case data_message data of
                            None \<Rightarrow> ''Error processing file''
                          | Some m \<Rightarrow> if m = [] then ''Error processing file'' else m))
             (disconnect s)
      else s)"

definition onError :: "process_state \<Rightarrow> process_state" where
  "onError s = disconnect (reject (Error ''WebSocket error: Connection failed'') s)"

definition onClose :: "nat \<Rightarrow> string \<Rightarrow> process_state \<Rightarrow> process_state" where
  "onClose code reason s =
     (if code \<noteq> 1000
      then reject (Error (''WebSocket closed unexpectedly: ''
                    @ (if reason = [] then ''Unknown reason'' else reason))) s
      else s)"

definition onTimeout :: "process_state \<Rightarrow> process_state" where
  "onTimeout s =
     (if ws s = Some OPEN
      then reject (Error ''File processing timed out after 60 seconds'') (disconnect s)
      else s)"

text \<open>
  The handlers \<^verbatim>\<open>WebSocketService.connect\<close> installs on the socket. A message whose
  text does not parse as JSON (\<open>None\<close>) is logged and dropped; the close handler
  ends with \<^verbatim>\<open>this.ws = null\<close>.
\<close>

definition ws_onopen :: "process_state \<Rightarrow> process_state" where
  "ws_onopen s = onOpen s"

definition ws_onmessage :: "ws_data option \<Rightarrow> process_state \<Rightarrow> process_state" where
  "ws_onmessage parsed s = (case parsed of None \<Rightarrow> s | Some data \<Rightarrow> onMessage data s)"

definition ws_onerror :: "process_state \<Rightarrow> process_state" where
  "ws_onerror s = onError s"

definition ws_onclose :: "nat \<Rightarrow> string \<Rightarrow> process_state \<Rightarrow> process_state" where
  "ws_onclose code reason s = (onClose code reason s)\<lparr>ws := None\<rparr>"

text \<open>
  The platform: a socket opens from CONNECTING and is OPEN when its open event is
  delivered; messages arrive while it is OPEN or CLOSING; a failing socket is CLOSED when
  its error event is delivered, and so is a socket when its close event is delivered; the
  timer fires once. An event that cannot occur in a state has no successor.
\<close>

datatype ws_event =
    Socket_open
  | Socket_message "ws_data option"
  | Socket_error
  | Socket_close nat string
  | Timer_fires

fun step :: "ws_event \<Rightarrow> process_state \<Rightarrow> process_state option" where
  "step Socket_open s =
     (if ws s = Some CONNECTING then Some (ws_onopen (s\<lparr>ws := Some OPEN\<rparr>)) else None)"
| "step (Socket_message parsed) s =
     (if ws s = Some OPEN \<or> ws s = Some CLOSING then Some (ws_onmessage parsed s) else None)"
| "step Socket_error s =
     (if ws s = None \<or> ws s = Some CLOSED then None
      else Some (ws_onerror (s\<lparr>ws := Some CLOSED\<rparr>)))"
| "step (Socket_close code reason) s =
     (if ws s = None then None else Some (ws_onclose code reason (s\<lparr>ws := Some CLOSED\<rparr>)))"
| "step Timer_fires s =
     (if timer s = None then None else Some (onTimeout (s\<lparr>timer := None\<rparr>)))"

fun run :: "ws_event list \<Rightarrow> process_state \<Rightarrow> process_state option" where
  "run [] s = Some s"
| "run (e # es) s = (case step e s of None \<Rightarrow> None | Some s' \<Rightarrow> run es s')"

text \<open>
  The start of a call: reading the file either throws, which rejects the promise before
  any socket exists, or the socket is created and the timer is set.
\<close>

definition processFileWithWebSocket_start :: "js_error + string \<Rightarrow> process_state" where
  "processFileWithWebSocket_start readAsStringAsync =
     (case readAsStringAsync of
        Inl error \<Rightarrow> \<lparr>ws = None, promise = Rejected error, sent = 0, timer = None\<rparr>
      | Inr base64Data \<Rightarrow> \<lparr>ws = Some CONNECTING, promise = Pending, sent = 0, timer = Some 60000\<rparr>)"

text \<open>
  While the socket is connecting or open, nothing has settled the promise: the property
  every reachable state keeps.
\<close>

definition socket_invariant :: "process_state \<Rightarrow> bool" where
  "socket_invariant s = (if ws s = Some OPEN \<or> ws s = Some CONNECTING then promise s = Pending else True)"

section \<open>Properties\<close>

subsection \<open>Rounding\<close>

text \<open>
  The error of rounding to binary64 is at most \<open>2 ^ - 53\<close> of the value. The percentage
  goes through two roundings (the quotient, the product with 100) before
  \<^verbatim>\<open>Math.round\<close>; it is the exactly rounded percentage whenever
  \<open>100 * score / total\<close> is not halfway between two integers.
\<close>

lemma pow2_power_int: "pow2 e = power_int 2 e"
  by (simp add: pow2_def power_int_def power_one_over inverse_eq_divide flip: power_inverse)

lemma pow2_pos: "0 < pow2 e"
  by (simp add: pow2_power_int)

lemma pow2_add: "pow2 (a + b) = pow2 a * pow2 b"
  by (simp add: pow2_power_int power_int_add)

lemma pow2_mono: "a \<le> b \<Longrightarrow> pow2 a \<le> pow2 b"
  by (simp add: pow2_power_int power_int_increasing)

lemma pow2_nat: "0 \<le> e \<Longrightarrow> pow2 e = 2 ^ nat e"
  by (simp add: pow2_def)

lemma bitlen_pow2_bounds:
  assumes "0 < a"
  shows "pow2 (bitlen a - 1) \<le> of_int a" "of_int a < pow2 (bitlen a)"
proof -
  from assms have b: "2 ^ nat (bitlen a - 1) \<le> a" "a < 2 ^ nat (bitlen a)"
    using bitlen_bounds [of a] by simp_all
  from assms have l: "1 \<le> bitlen a"
    by (simp add: bitlen_alt_def)
  have "(of_int (2 ^ nat (bitlen a - 1)) :: rat) \<le> of_int a"
    using b(1) by (simp only: of_int_le_iff)
  then show "pow2 (bitlen a - 1) \<le> of_int a"
    using l by (simp add: pow2_nat)
  have "(of_int a :: rat) < of_int (2 ^ nat (bitlen a))"
    using b(2) by (simp only: of_int_less_iff)
  then show "of_int a < pow2 (bitlen a)"
    using l by (simp add: pow2_nat)
qed

lemma binade_bounds:
  assumes "0 < x"
  shows "pow2 (binade x) \<le> x" "x < pow2 (binade x + 1)"
proof -
  obtain a b where q: "quotient_of x = (a, b)" by (cases "quotient_of x")
  then have b: "0 < b" and x: "x = of_int a / of_int b"
    by (simp_all add: quotient_of_denom_pos quotient_of_div)
  from assms x b have a: "0 < a"
    by (simp add: zero_less_divide_iff)
  let ?e = "bitlen a - bitlen b"
  note ba = bitlen_pow2_bounds [OF a] and bb = bitlen_pow2_bounds [OF b]
  have pb: "(0::rat) < of_int b" using b by simp
  have up: "x < pow2 (?e + 1)"
  proof -
    have "of_int a < pow2 (bitlen a)" by (rule ba(2))
    also have "pow2 (bitlen a) = pow2 (?e + 1) * pow2 (bitlen b - 1)"
      by (simp flip: pow2_add)
    also have "\<dots> \<le> pow2 (?e + 1) * of_int b"
      using bb(1) pow2_pos [of "?e + 1"] by (simp add: mult_left_mono)
    finally show ?thesis
      using pb by (simp add: x pos_divide_less_eq)
  qed
  have lo: "pow2 (?e - 1) \<le> x"
  proof -
    have "pow2 (?e - 1) * of_int b \<le> pow2 (?e - 1) * pow2 (bitlen b)"
      using bb(2) pow2_pos [of "?e - 1"] by (simp add: mult_left_mono)
    also have "\<dots> = pow2 (bitlen a - 1)"
      by (simp flip: pow2_add)
    also have "\<dots> \<le> of_int a" by (rule ba(1))
    finally show ?thesis
      using pb by (simp add: x pos_le_divide_eq)
  qed
  have e: "binade x = (if x < pow2 ?e then ?e - 1 else ?e)"
    by (simp add: binade_def q Let_def)
  show "pow2 (binade x) \<le> x"
    using lo by (simp add: e)
  show "x < pow2 (binade x + 1)"
    using up by (simp add: e)
qed

lemma roundTiesToEven_error: "\<bar>of_int (roundTiesToEven x) - x\<bar> \<le> 1 / 2"
proof -
  have "of_int \<lfloor>x\<rfloor> \<le> x" "x < of_int \<lfloor>x\<rfloor> + 1"
    by linarith+
  then show ?thesis
    by (auto simp: roundTiesToEven_def Let_def abs_le_iff)
qed

lemma roundToDouble_error:
  assumes "0 < x" "pow2 (- 1022) \<le> x"
  shows "\<bar>roundToDouble x - x\<bar> \<le> x * pow2 (- 53)"
proof -
  let ?e = "binade x"
  have e: "- 1022 \<le> ?e"
  proof (rule ccontr)
    assume "\<not> - 1022 \<le> ?e"
    then have "?e + 1 \<le> - 1022" by simp
    then have "pow2 (?e + 1) \<le> pow2 (- 1022)" by (rule pow2_mono)
    with binade_bounds(2) [OF assms(1)] assms(2) show False by simp
  qed
  let ?q = "pow2 (?e - 52)"
  have q: "0 < ?q" by (rule pow2_pos)
  have r: "roundToDouble x = of_int (roundTiesToEven (x / ?q)) * ?q"
    using assms(1) e by (simp add: roundToDouble_def Let_def max_def)
  have "roundToDouble x - x = (of_int (roundTiesToEven (x / ?q)) - x / ?q) * ?q"
    using q by (simp add: r left_diff_distrib)
  then have "\<bar>roundToDouble x - x\<bar> = \<bar>of_int (roundTiesToEven (x / ?q)) - x / ?q\<bar> * ?q"
    using q by (simp add: abs_mult)
  also have "\<dots> \<le> 1 / 2 * ?q"
    using roundTiesToEven_error [of "x / ?q"] q by (simp add: mult_right_mono)
  also have "1 / 2 * ?q = pow2 ?e * pow2 (- 53)"
  proof -
    have "?q = pow2 (?e + (- 53) + 1)" by simp
    also have "\<dots> = pow2 ?e * pow2 (- 53) * pow2 1"
      by (simp only: pow2_add)
    finally show ?thesis by (simp add: pow2_def)
  qed
  also have "\<dots> \<le> x * pow2 (- 53)"
    using binade_bounds(1) [OF assms(1)] pow2_pos [of "- 53"] by (simp add: mult_right_mono)
  finally show ?thesis .
qed


lemma two_roundings:
  fixes x r y u :: rat
  assumes "\<bar>r - x\<bar> \<le> x * u" "\<bar>y - r * 100\<bar> \<le> r * 100 * u" "0 \<le> u" "0 \<le> x" "x \<le> 1"
  shows "\<bar>y - 100 * x\<bar> \<le> 100 * u * (2 + u)"
proof -
  from assms(1) have rhi: "r \<le> x * (1 + u)"
    by (simp add: abs_le_iff algebra_simps)
  have "y - 100 * x = (y - r * 100) + 100 * (r - x)"
    by (simp add: algebra_simps)
  then have "\<bar>y - 100 * x\<bar> \<le> \<bar>y - r * 100\<bar> + \<bar>100 * (r - x)\<bar>"
    by (simp only: abs_triangle_ineq)
  also have "\<bar>100 * (r - x)\<bar> = 100 * \<bar>r - x\<bar>"
    by (simp only: abs_mult abs_numeral)
  also have "\<bar>y - r * 100\<bar> + 100 * \<bar>r - x\<bar> \<le> r * 100 * u + 100 * (x * u)"
    using assms(1,2) by simp
  also have "\<dots> \<le> x * (1 + u) * 100 * u + 100 * (x * u)"
    using rhi assms(3) by (simp add: mult_right_mono)
  also have "\<dots> = x * (100 * u * (2 + u))"
    by (simp add: algebra_simps)
  also have "\<dots> \<le> 1 * (100 * u * (2 + u))"
    using assms(3,5) by (intro mult_right_mono) simp_all
  finally show ?thesis by simp
qed

lemma percentage_error:
  assumes "0 < score" "score \<le> tot" "tot \<le> 2 ^ 44"
  shows "\<bar>roundToDouble (roundToDouble (of_nat score / of_nat tot) * 100)
           - 100 * (of_nat score / of_nat tot)\<bar> < pow2 (- 45)"
proof -
  define x :: rat where "x = of_nat score / of_nat tot"
  define u :: rat where "u = pow2 (- 53)"
  define r where "r = roundToDouble x"
  define y where "y = roundToDouble (r * 100)"
  have t: "(0::rat) < of_nat tot" using assms by simp
  have x1: "x \<le> 1" using assms t by (simp add: x_def pos_divide_le_eq)
  have "(of_nat tot :: rat) \<le> of_nat (2 ^ 44)"
    using assms(3) by (simp only: of_nat_le_iff)
  then have "(of_nat tot :: rat) \<le> 2 ^ 44" by simp
  moreover have "(1::rat) \<le> of_nat score" using assms(1) by simp
  ultimately have "1 / 2 ^ 44 \<le> x"
    unfolding x_def using t by (intro frac_le) simp_all
  then have xlo: "pow2 (- 44) \<le> x" by (simp add: pow2_def)
  have x0: "0 < x" using assms t by (simp add: x_def)
  have "pow2 (- 1022) \<le> pow2 (- 44)" by (rule pow2_mono) simp
  with xlo have "pow2 (- 1022) \<le> x" by simp
  from roundToDouble_error [OF x0 this] have e1: "\<bar>r - x\<bar> \<le> x * u"
    by (simp add: r_def u_def)
  have u: "u = 1 / 2 ^ 53" by (simp add: u_def pow2_def)
  have u0: "0 \<le> u" and u_small: "u \<le> 1 / 2" by (simp_all add: u)
  from e1 have rlo: "x * (1 - u) \<le> r"
    by (simp add: abs_le_iff algebra_simps)
  have "x * (1 / 2) \<le> x * (1 - u)"
    using x0 u_small by (intro mult_left_mono) simp_all
  with rlo have rhalf: "x / 2 \<le> r" by simp
  with x0 have r0: "0 < r * 100" by simp
  have "pow2 (- 1022) \<le> pow2 (- 45)" by (rule pow2_mono) simp
  also have "pow2 (- 45) = pow2 (- 44) / 2" by (simp add: pow2_def)
  also have "\<dots> \<le> x / 2" using xlo by simp
  also have "\<dots> \<le> r" by (rule rhalf)
  also have "\<dots> \<le> r * 100" using r0 by simp
  finally have "pow2 (- 1022) \<le> r * 100" .
  from roundToDouble_error [OF r0 this] have e2: "\<bar>y - r * 100\<bar> \<le> r * 100 * u"
    by (simp add: y_def u_def)
  from two_roundings [OF e1 e2 u0 _ x1] x0
  have "\<bar>y - 100 * x\<bar> \<le> 100 * u * (2 + u)" by simp
  also have "\<dots> < pow2 (- 45)"
    by (simp add: u pow2_def)
  finally show ?thesis
    by (simp add: y_def r_def x_def)
qed

lemma floor_between:
  fixes y v :: rat
  assumes "\<bar>y - v\<bar> < e" "of_int k + e \<le> v + 1 / 2" "v + 1 / 2 + e \<le> of_int k + 1"
  shows "\<lfloor>y + 1 / 2\<rfloor> = k"
proof -
  from assms have "of_int k \<le> y + 1 / 2" "y + 1 / 2 < of_int k + 1"
    by (simp_all add: abs_less_iff)
  then show ?thesis
    by (simp add: floor_unique)
qed

lemma percentage_Finite:
  "0 < tot \<Longrightarrow> MCQResultScreen_percentage score tot =
     Finite (of_int \<lfloor>roundToDouble (roundToDouble (of_nat score / of_nat tot) * 100) + 1 / 2\<rfloor>)"
  by (simp add: MCQResultScreen_percentage_def)

lemma percentage_exact:
  assumes "0 < tot" "score \<le> tot" "tot \<le> 2 ^ 44" "(200 * score + tot) mod (2 * tot) \<noteq> 0"
  shows "MCQResultScreen_percentage score tot = Finite (of_nat ((200 * score + tot) div (2 * tot)))"
proof (cases "score = 0")
  case True
  have "\<lfloor>1 / 2 :: rat\<rfloor> = 0"
    by (rule floor_unique) simp_all
  with True assms(1) show ?thesis
    by (simp add: percentage_Finite roundToDouble_def)
next
  case False
  then have s: "0 < score" by simp
  define k where "k = (200 * score + tot) div (2 * tot)"
  define m where "m = (200 * score + tot) mod (2 * tot)"
  define v :: rat where "v = 100 * (of_nat score / of_nat tot)"
  have t: "(0::rat) < of_nat tot" using assms(1) by simp
  have m: "1 \<le> m" "m + 1 \<le> 2 * tot"
    using assms(1,4) by (simp_all add: m_def Suc_le_eq)
  have "200 * score + tot = k * (2 * tot) + m"
    unfolding k_def m_def by (rule div_mult_mod_eq [symmetric])
  then have "(of_nat (200 * score + tot) :: rat) = of_nat (k * (2 * tot) + m)"
    by (simp only:)
  then have "v + 1 / 2 = of_nat k + of_nat m / (2 * of_nat tot)"
    using t by (simp add: v_def field_simps)
  moreover have "1 / (2 * of_nat tot) \<le> (of_nat m :: rat) / (2 * of_nat tot)"
    using m(1) t by (simp add: divide_le_cancel)
  moreover have "(of_nat m :: rat) / (2 * of_nat tot) + 1 / (2 * of_nat tot) \<le> 1"
  proof -
    have "(of_nat (m + 1) :: rat) \<le> of_nat (2 * tot)"
      using m(2) by (simp only: of_nat_le_iff)
    then show ?thesis
      using t by (simp add: field_simps)
  qed
  moreover have "pow2 (- 45) \<le> 1 / (2 * of_nat tot)"
  proof -
    have "(of_nat tot :: rat) \<le> of_nat (2 ^ 44)"
      using assms(3) by (simp only: of_nat_le_iff)
    then have "2 * (of_nat tot :: rat) \<le> 2 ^ 45" by simp
    then have "1 / 2 ^ 45 \<le> 1 / (2 * of_nat tot :: rat)"
      using t by (intro frac_le) simp_all
    then show ?thesis by (simp add: pow2_def)
  qed
  ultimately have "of_int (int k) + pow2 (- 45) \<le> v + 1 / 2"
    "v + 1 / 2 + pow2 (- 45) \<le> of_int (int k) + 1"
    by simp_all
  from floor_between [OF _ this,
      of "roundToDouble (roundToDouble (of_nat score / of_nat tot) * 100)"]
    percentage_error [OF s assms(2,3)]
  have "\<lfloor>roundToDouble (roundToDouble (of_nat score / of_nat tot) * 100) + 1 / 2\<rfloor> = int k"
    by (simp add: v_def)
  with assms(1) show ?thesis
    by (simp add: percentage_Finite k_def)
qed

text \<open>
  At a tie the two roundings decide. With fewer than 40 questions the only ties are the
  odd eighths, which binary64 holds exactly; 23 of 40 is a tie that goes the other way:
  the exact percentage 57.5 rounds to 58, the screen shows 57.
\<close>

lemma eighths:
  "MCQResultScreen_percentage 1 8 = Finite 13" "MCQResultScreen_percentage 3 8 = Finite 38"
  "MCQResultScreen_percentage 5 8 = Finite 63" "MCQResultScreen_percentage 7 8 = Finite 88"
  by code_simp+

lemma percentage_23_of_40:
  "MCQResultScreen_percentage 23 40 = Finite 57" "(200 * 23 + 40) div (2 * 40) = (58::nat)"
  by code_simp+

lemma percentage_scale:
  assumes "0 < c"
  shows "MCQResultScreen_percentage (c * s) (c * t) = MCQResultScreen_percentage s t"
proof -
  have "(of_nat (c * s) :: rat) / of_nat (c * t) = of_nat s / of_nat t"
    using assms by simp
  with assms show ?thesis
    by (simp add: MCQResultScreen_percentage_def del: of_nat_mult)
qed

lemma ties_below_40:
  fixes score tot :: nat
  assumes "0 < tot" "score \<le> tot" "tot < 40" "(200 * score + tot) mod (2 * tot) = 0"
  shows "\<exists>c s. 0 < c \<and> tot = c * 8 \<and> score = c * s \<and> (s = 1 \<or> s = 3 \<or> s = 5 \<or> s = 7)"
proof -
  from assms(4) obtain q where q: "200 * score + tot = 2 * tot * q"
    by (auto simp: mod_eq_0_iff_dvd dvd_def)
  with assms(1) have q0: "0 < q" by (cases q) simp_all
  from q q0 have eq: "8 * (25 * score) = tot * (2 * q - 1)"
    by (simp add: algebra_simps)
  have "odd (2 * q - 1)" using q0 by simp
  then have "coprime (2 ^ 3) (2 * q - 1)"
    by (simp only: coprime_power_left_iff coprime_left_2_iff_odd) simp
  then have "coprime 8 (2 * q - 1)" by simp
  moreover have "8 dvd tot * (2 * q - 1)"
    using eq by (metis dvd_triv_left)
  ultimately have "8 dvd tot"
    by (simp add: coprime_dvd_mult_left_iff)
  then obtain c where c: "tot = c * 8" by (auto elim!: dvdE)
  with assms(1,3) have c4: "c = 1 \<or> c = 2 \<or> c = 3 \<or> c = 4" by arith
  from eq c have e: "25 * score = c * (2 * q - 1)" by simp
  from assms(2) c have le: "score \<le> c * 8" by simp
  from c4 have c0: "0 < c" and "c dvd 24" by auto
  then have "c dvd 24 * score" by simp
  moreover have "c dvd 24 * score + score"
    using e by (simp add: algebra_simps)
  ultimately have "c dvd score"
    by (simp only: dvd_add_right_iff)
  then obtain s where s: "score = c * s" by (auto elim!: dvdE)
  with e c0 have "25 * s = 2 * q - 1" by simp
  with q0 have "odd s" by presburger
  moreover from le s c0 have "s \<le> 8" by simp
  ultimately have "s = 1 \<or> s = 3 \<or> s = 5 \<or> s = 7"
    by (auto elim!: oddE)
  with s have "\<exists>s. score = c * s \<and> (s = 1 \<or> s = 3 \<or> s = 5 \<or> s = 7)"
    by blast
  with c c4 show ?thesis by auto
qed

lemma percentage_exact_below_40:
  assumes "0 < tot" "score \<le> tot" "tot < 40"
  shows "MCQResultScreen_percentage score tot = Finite (of_nat ((200 * score + tot) div (2 * tot)))"
proof (cases "(200 * score + tot) mod (2 * tot) = 0")
  case False
  from assms(3) have "tot \<le> 2 ^ 44" by simp
  from percentage_exact [OF assms(1,2) this False] show ?thesis .
next
  case True
  from ties_below_40 [OF assms True] obtain c s
    where c: "0 < c" "tot = c * 8" "score = c * s" and s: "s = 1 \<or> s = 3 \<or> s = 5 \<or> s = 7"
    by blast
  have "200 * score + tot = c * (200 * s + 8)" "2 * tot = c * 16"
    by (simp_all add: c algebra_simps)
  then have "(200 * score + tot) div (2 * tot) = (200 * s + 8) div 16"
    using c(1) by (simp only: div_mult_mult1) 
  moreover have "MCQResultScreen_percentage score tot = MCQResultScreen_percentage s 8"
    using percentage_scale [OF c(1), of s 8] by (simp add: c)
  ultimately show ?thesis
    using s eighths by auto
qed

text \<open>The nearest integer to the exact percentage, a tie going up.\<close>

lemma round_percentage:
  assumes "0 < tot"
  shows "round (of_nat score / of_nat tot * 100 :: rat) = int ((200 * score + tot) div (2 * tot))"
proof -
  have t: "(0::rat) < of_nat tot" using assms by simp
  have "(of_nat score / of_nat tot * 100 + 1 / 2 :: rat)
      = of_int (int (200 * score + tot)) / of_int (int (2 * tot))"
    using t by (simp add: field_simps)
  then have "\<lfloor>of_nat score / of_nat tot * 100 + 1 / 2 :: rat\<rfloor>
      = int (200 * score + tot) div int (2 * tot)"
    by (simp only: floor_divide_of_int_eq)
  then show ?thesis
    by (simp add: round_def zdiv_int)
qed

subsection \<open>Scoring\<close>

lemma reduce_score_enumerate:
  "reduce_score sel mcqs index acc =
     acc + length (filter (\<lambda>(i, mcq). map_of sel i = Some (correctAnswer mcq)) (List.enumerate index mcqs))"
  by (induction mcqs arbitrary: index acc) simp_all

lemma map_results_enumerate:
  "map_results sel mcqs index =
     map (\<lambda>(i, mcq). \<lparr>question = question mcq, options = options mcq,
        correctAnswer = correctAnswer mcq, userAnswer = map_of sel i\<rparr>) (List.enumerate index mcqs)"
  by (induction mcqs arbitrary: index) simp_all

lemma filter_enumerate_card:
  "length (filter (\<lambda>(i, x). P i x) (List.enumerate 0 xs)) = card {i. i < length xs \<and> P i (xs ! i)}"
proof -
  have "{i. i < length (List.enumerate 0 xs) \<and> (\<lambda>(i, x). P i x) (List.enumerate 0 xs ! i)}
      = {i. i < length xs \<and> P i (xs ! i)}"
    by (auto simp: nth_enumerate_eq)
  then show ?thesis
    by (simp add: length_filter_conv_card)
qed

lemma reduce_score_card:
  "reduce_score sel mcqs 0 0 = card {i. i < length mcqs \<and> map_of sel i = Some (correctAnswer (mcqs ! i))}"
  by (simp add: reduce_score_enumerate filter_enumerate_card)

lemma reduce_score_results:
  "reduce_score sel mcqs 0 0 =
     length (filter (\<lambda>r. userAnswer r = Some (correctAnswer r)) (map_results sel mcqs 0))"
  by (simp add: reduce_score_enumerate map_results_enumerate filter_map comp_def case_prod_unfold)

lemma length_map_results: "length (map_results sel mcqs index) = length mcqs"
  by (simp add: map_results_enumerate)

lemma nth_map_results:
  "i < length mcqs \<Longrightarrow> map_results sel mcqs 0 ! i =
     \<lparr>question = question (mcqs ! i), options = options (mcqs ! i),
      correctAnswer = correctAnswer (mcqs ! i), userAnswer = map_of sel i\<rparr>"
  by (simp add: map_results_enumerate nth_enumerate_eq)

lemma reduce_score_le: "reduce_score sel mcqs 0 0 \<le> length mcqs"
proof -
  have "card {i. i < length mcqs \<and> map_of sel i = Some (correctAnswer (mcqs ! i))} \<le> card {..<length mcqs}"
    by (rule card_mono) auto
  then show ?thesis by (simp add: reduce_score_card)
qed

lemma keys_handleAnswer:
  assumes "map_of sel i = Some a"
  shows "Object_keys_length (handleAnswer sel i v) = Object_keys_length sel"
proof -
  from assms have "i \<in> fst ` set sel"
    by (metis fst_conv image_iff map_of_SomeD)
  then show ?thesis
    by (simp add: Object_keys_length_def handleAnswer_def update_keys)
qed

lemma score_handleAnswer:
  assumes "i < length mcqs" "map_of sel i \<noteq> Some (correctAnswer (mcqs ! i))"
  shows "reduce_score (handleAnswer sel i (correctAnswer (mcqs ! i))) mcqs 0 0 = reduce_score sel mcqs 0 0 + 1"
proof -
  let ?S = "{j. j < length mcqs \<and> map_of sel j = Some (correctAnswer (mcqs ! j))}"
  have "{j. j < length mcqs \<and> map_of (handleAnswer sel i (correctAnswer (mcqs ! i))) j = Some (correctAnswer (mcqs ! j))}
      = insert i ?S"
    using assms by (auto simp: handleAnswer_def update_conv')
  moreover have "i \<notin> ?S" using assms by simp
  moreover have "finite ?S" by simp
  ultimately show ?thesis by (simp add: reduce_score_card)
qed

lemma handleSubmit_Navigate:
  "handleSubmit mcqs sel = Navigate_MCQResult p \<Longrightarrow>
     \<not> Object_keys_length sel < length mcqs \<and>
     p = \<lparr>param_score = reduce_score sel mcqs 0 0, param_total = length mcqs,
          param_results = map_results sel mcqs 0\<rparr>"
  by (auto simp: handleSubmit_def split: if_splits)

lemma view_percentage_MCQResultScreen:
  "view_percentage (MCQResultScreen (Some p)) = MCQResultScreen_percentage (param_score p) (param_total p)"
  by (simp add: MCQResultScreen_def Let_def)

lemma view_grade_MCQResultScreen:
  "view_grade (MCQResultScreen (Some p))
     = MCQResultScreen_grade (MCQResultScreen_percentage (param_score p) (param_total p))"
  by (simp add: MCQResultScreen_def Let_def)

text \<open>
  Claim C1, as stated, fails in its percentage: with 23 of 40 answers right the exact
  percentage is 57.5, which rounds to 58, and the result screen shows 57.
\<close>

theorem C1_counterexample:
  "handleSubmit
     (replicate 40 \<lparr>question = ''Q'', options = [''a'', ''b''], correctAnswer = ''a''\<rparr>)
     (zip [0..<40] (replicate 23 ''a'' @ replicate 17 ''b''))
   = Navigate_MCQResult
       \<lparr>param_score = 23, param_total = 40,
        param_results = map_results (zip [0..<40] (replicate 23 ''a'' @ replicate 17 ''b''))
          (replicate 40 \<lparr>question = ''Q'', options = [''a'', ''b''], correctAnswer = ''a''\<rparr>) 0\<rparr>
 \<and> view_percentage (MCQResultScreen (Some
       \<lparr>param_score = 23, param_total = 40,
        param_results = map_results (zip [0..<40] (replicate 23 ''a'' @ replicate 17 ''b''))
          (replicate 40 \<lparr>question = ''Q'', options = [''a'', ''b''], correctAnswer = ''a''\<rparr>) 0\<rparr>))
     = Finite 57
 \<and> round (23 / 40 * 100 :: rat) = 58"
proof -
  let ?mcqs = "replicate 40 \<lparr>question = ''Q'', options = [''a'', ''b''], correctAnswer = ''a''\<rparr>"
  let ?sel = "zip [0..<40] (replicate 23 ''a'' @ replicate 17 ''b'')"
  have keys: "Object_keys_length ?sel = 40" by code_simp
  have score: "reduce_score ?sel ?mcqs 0 0 = 23" by code_simp
  have "handleSubmit ?mcqs ?sel = Navigate_MCQResult
       \<lparr>param_score = 23, param_total = 40, param_results = map_results ?sel ?mcqs 0\<rparr>"
    by (simp only: handleSubmit_def keys score length_replicate) simp
  moreover have "view_percentage (MCQResultScreen (Some
       \<lparr>param_score = 23, param_total = 40, param_results = map_results ?sel ?mcqs 0\<rparr>))
     = Finite 57"
    by (simp add: view_percentage_MCQResultScreen percentage_23_of_40)
  moreover have "round (23 / 40 * 100 :: rat) = 58"
    by (simp add: round_def)
  ultimately show ?thesis by blast
qed

text \<open>
  Claim C1, amended. When a submission is accepted, the score passed to the result screen
  is the number of indices at which the selected answer is the same string as the
  correct answer, counted over the indices and, equally, over the result records; the
  total is the number of questions. With a positive total the percentage the result
  screen shows is \<^verbatim>\<open>Math.round((score / total) * 100)\<close> as binary64 arithmetic computes
  it: that is \<open>100 * score / total\<close> rounded to the nearest integer whenever the exact
  percentage is not halfway between two integers (for a total up to \<open>2 ^ 44\<close>), and for
  every total below 40.
\<close>

theorem C1_score_counts_exact_matches:
  assumes "handleSubmit mcqs selectedAnswers = Navigate_MCQResult p"
  shows "param_score p
           = card {i. i < length mcqs \<and> map_of selectedAnswers i = Some (correctAnswer (mcqs ! i))}
       \<and> param_score p
           = length (filter (\<lambda>r. userAnswer r = Some (correctAnswer r)) (param_results p))
       \<and> length (param_results p) = length mcqs
       \<and> param_total p = length mcqs
       \<and> (\<forall>i < length mcqs.
             userAnswer (param_results p ! i) = map_of selectedAnswers i
           \<and> correctAnswer (param_results p ! i) = correctAnswer (mcqs ! i))
       \<and> (0 < param_total p \<longrightarrow>
             view_percentage (MCQResultScreen (Some p))
               = Math_round (Number_multiply
                   (Number_divide (Finite (of_nat (param_score p))) (Finite (of_nat (param_total p))))
                   (Finite 100)))
       \<and> (0 < param_total p \<and> param_total p \<le> 2 ^ 44
            \<and> (200 * param_score p + param_total p) mod (2 * param_total p) \<noteq> 0 \<longrightarrow>
             view_percentage (MCQResultScreen (Some p))
               = Finite (of_int (round (of_nat (param_score p) / of_nat (param_total p) * 100 :: rat))))
       \<and> (0 < param_total p \<and> param_total p < 40 \<longrightarrow>
             view_percentage (MCQResultScreen (Some p))
               = Finite (of_int (round (of_nat (param_score p) / of_nat (param_total p) * 100 :: rat))))"
proof -
  from assms have p: "p = \<lparr>param_score = reduce_score selectedAnswers mcqs 0 0,
      param_total = length mcqs, param_results = map_results selectedAnswers mcqs 0\<rparr>"
    by (simp add: handleSubmit_Navigate)
  have 1: "param_score p
      = card {i. i < length mcqs \<and> map_of selectedAnswers i = Some (correctAnswer (mcqs ! i))}"
    by (simp add: p reduce_score_card)
  have 2: "param_score p
      = length (filter (\<lambda>r. userAnswer r = Some (correctAnswer r)) (param_results p))"
    by (simp add: p reduce_score_results)
  have 3: "length (param_results p) = length mcqs" "param_total p = length mcqs"
    by (simp_all add: p length_map_results)
  have 4: "\<forall>i < length mcqs.
             userAnswer (param_results p ! i) = map_of selectedAnswers i
           \<and> correctAnswer (param_results p ! i) = correctAnswer (mcqs ! i)"
    by (simp add: p nth_map_results)
  have 5: "0 < param_total p \<longrightarrow>
             view_percentage (MCQResultScreen (Some p))
               = Math_round (Number_multiply
                   (Number_divide (Finite (of_nat (param_score p))) (Finite (of_nat (param_total p))))
                   (Finite 100))"
    by (simp add: view_percentage_MCQResultScreen MCQResultScreen_percentage_def)
  have le: "param_score p \<le> param_total p"
    by (simp add: p reduce_score_le)
  have 6: "0 < param_total p \<and> param_total p \<le> 2 ^ 44
            \<and> (200 * param_score p + param_total p) mod (2 * param_total p) \<noteq> 0 \<longrightarrow>
             view_percentage (MCQResultScreen (Some p))
               = Finite (of_int (round (of_nat (param_score p) / of_nat (param_total p) * 100 :: rat)))"
  proof (intro impI, elim conjE)
    assume h: "0 < param_total p" "param_total p \<le> 2 ^ 44"
      "(200 * param_score p + param_total p) mod (2 * param_total p) \<noteq> 0"
    have "view_percentage (MCQResultScreen (Some p))
        = Finite (of_nat ((200 * param_score p + param_total p) div (2 * param_total p)))"
      by (simp only: view_percentage_MCQResultScreen percentage_exact [OF h(1) le h(2) h(3)])
    then show "view_percentage (MCQResultScreen (Some p))
        = Finite (of_int (round (of_nat (param_score p) / of_nat (param_total p) * 100 :: rat)))"
      by (simp only: round_percentage [OF h(1)] of_int_of_nat_eq)
  qed
  have 7: "0 < param_total p \<and> param_total p < 40 \<longrightarrow>
             view_percentage (MCQResultScreen (Some p))
               = Finite (of_int (round (of_nat (param_score p) / of_nat (param_total p) * 100 :: rat)))"
  proof (intro impI, elim conjE)
    assume h: "0 < param_total p" "param_total p < 40"
    have "view_percentage (MCQResultScreen (Some p))
        = Finite (of_nat ((200 * param_score p + param_total p) div (2 * param_total p)))"
      by (simp only: view_percentage_MCQResultScreen percentage_exact_below_40 [OF h(1) le h(2)])
    then show "view_percentage (MCQResultScreen (Some p))
        = Finite (of_int (round (of_nat (param_score p) / of_nat (param_total p) * 100 :: rat)))"
      by (simp only: round_percentage [OF h(1)] of_int_of_nat_eq)
  qed
  from 1 2 3 4 5 6 7 show ?thesis by blast
qed

lemma percentage_1_of_2: "MCQResultScreen_percentage 1 2 = Finite 50"
  by code_simp

theorem C1_witness:
  "\<exists>p. handleSubmit
          [\<lparr>question = ''Capital of France?'', options = [''Lyon'', ''Paris''], correctAnswer = ''Paris''\<rparr>,
           \<lparr>question = ''2 + 2?'', options = [''4'', ''3''], correctAnswer = ''4''\<rparr>]
          [(0, ''Paris''), (1, ''3'')] = Navigate_MCQResult p
      \<and> param_score p = 1 \<and> param_total p = 2
      \<and> view_percentage (MCQResultScreen (Some p)) = Finite 50"
proof -
  let ?mcqs = "[\<lparr>question = ''Capital of France?'', options = [''Lyon'', ''Paris''], correctAnswer = ''Paris''\<rparr>,
           \<lparr>question = ''2 + 2?'', options = [''4'', ''3''], correctAnswer = ''4''\<rparr>]"
  let ?sel = "[(0::nat, ''Paris''), (1, ''3'')]"
  let ?p = "\<lparr>param_score = reduce_score ?sel ?mcqs 0 0, param_total = length ?mcqs,
      param_results = map_results ?sel ?mcqs 0\<rparr>"
  have h: "handleSubmit ?mcqs ?sel = Navigate_MCQResult ?p"
    by (simp add: handleSubmit_def Object_keys_length_def)
  have s: "param_score ?p = 1" "param_total ?p = 2" by simp_all
  have "round (of_nat (param_score ?p) / of_nat (param_total ?p) * 100 :: rat)
      = int ((200 * param_score ?p + param_total ?p) div (2 * param_total ?p))"
    by (rule round_percentage) simp
  also have "\<dots> = 50" by (simp only: s) simp
  finally have r: "round (of_nat (param_score ?p) / of_nat (param_total ?p) * 100 :: rat) = 50" .
  from C1_score_counts_exact_matches [OF h]
  have "0 < param_total ?p \<and> param_total ?p < 40 \<longrightarrow>
      view_percentage (MCQResultScreen (Some ?p))
        = Finite (of_int (round (of_nat (param_score ?p) / of_nat (param_total ?p) * 100 :: rat)))"
    by blast
  moreover have "0 < param_total ?p \<and> param_total ?p < 40" by simp
  ultimately have "view_percentage (MCQResultScreen (Some ?p))
        = Finite (of_int (round (of_nat (param_score ?p) / of_nat (param_total ?p) * 100 :: rat)))"
    by blast
  then have "view_percentage (MCQResultScreen (Some ?p)) = Finite 50"
    by (simp only: r) simp
  with h s show ?thesis by (intro exI [of _ ?p]) simp
qed

subsection \<open>Grades\<close>

lemma grade_cases:
  "MCQResultScreen_grade (Finite (of_int p)) = ''A'' \<longleftrightarrow> 90 \<le> p"
  "MCQResultScreen_grade (Finite (of_int p)) = ''B'' \<longleftrightarrow> 80 \<le> p \<and> p < 90"
  "MCQResultScreen_grade (Finite (of_int p)) = ''C'' \<longleftrightarrow> 70 \<le> p \<and> p < 80"
  "MCQResultScreen_grade (Finite (of_int p)) = ''D'' \<longleftrightarrow> 60 \<le> p \<and> p < 70"
  "MCQResultScreen_grade (Finite (of_int p)) = ''F'' \<longleftrightarrow> p < 60"
  by (simp_all add: MCQResultScreen_grade_def)

lemma report_grade_eq: "generateResultReport_grade x = MCQResultScreen_grade x"
  by (simp add: generateResultReport_grade_def MCQResultScreen_grade_def)

lemma report_percentage_eq:
  "generateResultReport_percentage score tot = MCQResultScreen_percentage score tot"
  by (simp add: generateResultReport_percentage_def MCQResultScreen_percentage_def)

lemma report_content_Some:
  "generateResultReport_content (Some rs) score tot =
     Inr \<lparr>doc_grade = generateResultReport_grade (generateResultReport_percentage score tot),
          doc_score = score, doc_total = tot,
          doc_percentage = generateResultReport_percentage score tot, doc_results = rs\<rparr>"
  by (simp add: generateResultReport_content_def Let_def)

text \<open>
  Claim C2. The grade of an integer percentage is A exactly from 90, B exactly on 80..89,
  C on 70..79, D on 60..69 and F below 60; 89 gives B and 90 gives A; the report
  generator's grade is the result screen's grade, for every Number and for every score
  and total.
\<close>

theorem C2_grade_thresholds:
  "(MCQResultScreen_grade (Finite (of_int p)) = ''A'' \<longleftrightarrow> 90 \<le> p)
 \<and> (MCQResultScreen_grade (Finite (of_int p)) = ''B'' \<longleftrightarrow> 80 \<le> p \<and> p < 90)
 \<and> (MCQResultScreen_grade (Finite (of_int p)) = ''C'' \<longleftrightarrow> 70 \<le> p \<and> p < 80)
 \<and> (MCQResultScreen_grade (Finite (of_int p)) = ''D'' \<longleftrightarrow> 60 \<le> p \<and> p < 70)
 \<and> (MCQResultScreen_grade (Finite (of_int p)) = ''F'' \<longleftrightarrow> p < 60)
 \<and> MCQResultScreen_grade (Finite 89) = ''B''
 \<and> MCQResultScreen_grade (Finite 90) = ''A''
 \<and> generateResultReport_grade x = MCQResultScreen_grade x
 \<and> map_sum id doc_grade (generateResultReport_content (Some results) score tot)
      = Inr (view_grade (MCQResultScreen
          (Some \<lparr>param_score = score, param_total = tot, param_results = results\<rparr>)))"
proof -
  have "MCQResultScreen_grade (Finite 89) = ''B''" "MCQResultScreen_grade (Finite 90) = ''A''"
    by (simp_all add: MCQResultScreen_grade_def)
  moreover have "map_sum id doc_grade (generateResultReport_content (Some results) score tot)
      = Inr (view_grade (MCQResultScreen
          (Some \<lparr>param_score = score, param_total = tot, param_results = results\<rparr>)))"
    by (simp add: report_content_Some view_grade_MCQResultScreen report_grade_eq
        report_percentage_eq)
  ultimately show ?thesis
    using grade_cases [of p] report_grade_eq [of x] by blast
qed

lemma percentage_7_of_8: "MCQResultScreen_percentage 7 8 = Finite 88"
  by code_simp

theorem C2_witness:
  "MCQResultScreen_grade (Finite 88) = ''B''
 \<and> \<not> MCQResultScreen_grade (Finite 88) = ''A''
 \<and> generateResultReport_grade (Finite 88) = ''B''
 \<and> map_sum id doc_grade (generateResultReport_content (Some []) 7 8) = Inr ''B''"
proof -
  have "view_grade (MCQResultScreen (Some \<lparr>param_score = 7, param_total = 8, param_results = []\<rparr>)) = ''B''"
    by (simp add: view_grade_MCQResultScreen percentage_7_of_8 MCQResultScreen_grade_def)
  then show ?thesis
    using C2_grade_thresholds [where p = 88 and x = "Finite 88" and results = "[]"
        and score = 7 and tot = 8]
    by simp
qed

text \<open>
  Claim C3. The score of an accepted submission lies between 0 and the number of
  questions, and replacing one question's non-matching answer by its correct answer,
  the other answers kept, gives an accepted submission whose score is not smaller (it is
  larger by one).
\<close>

theorem C3_score_bounded_and_monotonic:
  assumes "handleSubmit mcqs selectedAnswers = Navigate_MCQResult p"
  shows "0 \<le> param_score p \<and> param_score p \<le> length mcqs
       \<and> (\<forall>i a. i < length mcqs \<and> map_of selectedAnswers i = Some a \<and> a \<noteq> correctAnswer (mcqs ! i)
            \<longrightarrow> (\<exists>p'. handleSubmit mcqs (handleAnswer selectedAnswers i (correctAnswer (mcqs ! i)))
                        = Navigate_MCQResult p'
                    \<and> param_score p \<le> param_score p'
                    \<and> param_score p' = param_score p + 1))"
proof -
  from assms have keys: "\<not> Object_keys_length selectedAnswers < length mcqs"
    and p: "p = \<lparr>param_score = reduce_score selectedAnswers mcqs 0 0,
      param_total = length mcqs, param_results = map_results selectedAnswers mcqs 0\<rparr>"
    by (simp_all add: handleSubmit_Navigate)
  have bound: "param_score p \<le> length mcqs"
    by (simp add: p reduce_score_le)
  have mono: "\<exists>p'. handleSubmit mcqs (handleAnswer selectedAnswers i (correctAnswer (mcqs ! i)))
                        = Navigate_MCQResult p'
                    \<and> param_score p \<le> param_score p'
                    \<and> param_score p' = param_score p + 1"
    if "i < length mcqs" "map_of selectedAnswers i = Some a" "a \<noteq> correctAnswer (mcqs ! i)" for i a
  proof -
    let ?sel = "handleAnswer selectedAnswers i (correctAnswer (mcqs ! i))"
    have "Object_keys_length ?sel = Object_keys_length selectedAnswers"
      using that(2) by (rule keys_handleAnswer)
    with keys have "handleSubmit mcqs ?sel = Navigate_MCQResult
        \<lparr>param_score = reduce_score ?sel mcqs 0 0, param_total = length mcqs,
         param_results = map_results ?sel mcqs 0\<rparr>"
      by (simp add: handleSubmit_def)
    moreover have "reduce_score ?sel mcqs 0 0 = reduce_score selectedAnswers mcqs 0 0 + 1"
      using that by (intro score_handleAnswer) simp_all
    ultimately show ?thesis by (simp add: p)
  qed
  from bound mono show ?thesis by blast
qed

theorem C3_witness:
  "\<exists>p p'. handleSubmit
          [\<lparr>question = ''Capital of France?'', options = [''Lyon'', ''Paris''], correctAnswer = ''Paris''\<rparr>,
           \<lparr>question = ''2 + 2?'', options = [''4'', ''3''], correctAnswer = ''4''\<rparr>]
          [(0, ''Paris''), (1, ''3'')] = Navigate_MCQResult p
      \<and> handleSubmit
          [\<lparr>question = ''Capital of France?'', options = [''Lyon'', ''Paris''], correctAnswer = ''Paris''\<rparr>,
           \<lparr>question = ''2 + 2?'', options = [''4'', ''3''], correctAnswer = ''4''\<rparr>]
          (handleAnswer [(0, ''Paris''), (1, ''3'')] 1 ''4'') = Navigate_MCQResult p'
      \<and> param_score p \<le> 2 \<and> param_score p \<le> param_score p'"
proof -
  let ?mcqs = "[\<lparr>question = ''Capital of France?'', options = [''Lyon'', ''Paris''], correctAnswer = ''Paris''\<rparr>,
           \<lparr>question = ''2 + 2?'', options = [''4'', ''3''], correctAnswer = ''4''\<rparr>]"
  let ?sel = "[(0::nat, ''Paris''), (1, ''3'')]"
  let ?p = "\<lparr>param_score = reduce_score ?sel ?mcqs 0 0, param_total = length ?mcqs,
      param_results = map_results ?sel ?mcqs 0\<rparr>"
  have h: "handleSubmit ?mcqs ?sel = Navigate_MCQResult ?p"
    by (simp add: handleSubmit_def Object_keys_length_def)
  have pre: "(1::nat) < length ?mcqs \<and> map_of ?sel 1 = Some ''3'' \<and> ''3'' \<noteq> correctAnswer (?mcqs ! 1)"
    by simp
  from C3_score_bounded_and_monotonic [OF h] pre
  obtain p' where "handleSubmit ?mcqs (handleAnswer ?sel 1 (correctAnswer (?mcqs ! 1))) = Navigate_MCQResult p'"
    "param_score ?p \<le> param_score p'"
    by blast
  moreover have "correctAnswer (?mcqs ! 1) = ''4''" by simp
  moreover have "param_score ?p \<le> 2"
    using C3_score_bounded_and_monotonic [OF h] by simp
  ultimately show ?thesis using h by (intro exI [of _ ?p] exI [of _ p']) simp
qed

subsection \<open>The exported files\<close>

lemma hd_report_pdf:
  "hd (generateResultReport env (Some rs) score tot ''pdf'') =
     Print_printToFileAsync (Report_html
       \<lparr>doc_grade = generateResultReport_grade (generateResultReport_percentage score tot),
        doc_score = score, doc_total = tot,
        doc_percentage = generateResultReport_percentage score tot, doc_results = rs\<rparr>)"
  by (simp add: generateResultReport_def generateResultReport_try_def report_content_Some
      split: sum.splits option.splits)

lemma hd_report_txt:
  "format \<noteq> ''pdf'' \<Longrightarrow>
   hd (generateResultReport env (Some rs) score tot format) =
     FileSystem_writeAsStringAsync
       (documentDirectory env @ ''MCQ_Assessment_Results_''
          @ takeWhile (\<lambda>c. c \<noteq> CHR ''T'') (Date_toISOString env) @ ''.txt'')
       (Report_text
         \<lparr>doc_grade = generateResultReport_grade (generateResultReport_percentage score tot),
          doc_score = score, doc_total = tot,
          doc_percentage = generateResultReport_percentage score tot, doc_results = rs\<rparr>)"
  by (simp add: generateResultReport_def generateResultReport_try_def report_content_Some Let_def
      split: sum.splits option.splits)

lemma hd_report_document:
  "\<exists>doc. written_document (hd (generateResultReport env (Some rs) score tot format)) = Some doc
     \<and> report_of doc = Some
         \<lparr>doc_grade = generateResultReport_grade (generateResultReport_percentage score tot),
          doc_score = score, doc_total = tot,
          doc_percentage = generateResultReport_percentage score tot, doc_results = rs\<rparr>"
  by (cases "format = ''pdf''") (simp_all add: hd_report_pdf hd_report_txt)

lemma report_missing:
  "generateResultReport env None score tot format =
     [Console_error ''Error generating assessment report:'' (TypeError []),
      Alert ''Error'' ''Failed to generate assessment report'']"
  by (simp add: generateResultReport_def generateResultReport_try_def
      generateResultReport_content_def Let_def)

lemma mcq_file_empty:
  "generateMCQFile env None format title = ([Alert ''Error'' ''No MCQs to download''], False)"
  "generateMCQFile env (Some []) format title = ([Alert ''Error'' ''No MCQs to download''], False)"
  by (simp_all add: generateMCQFile_def generateMCQFile_try_def)

lemma report_pdf_shared:
  "printToFileAsync env = Inr uri \<Longrightarrow> isAvailableAsync env = Inr True \<Longrightarrow> shareAsync env = None \<Longrightarrow>
      generateResultReport env (Some rs) score tot ''pdf'' =
        [hd (generateResultReport env (Some rs) score tot ''pdf''), Sharing_shareAsync uri]"
  by (simp add: generateResultReport_def generateResultReport_try_def report_content_Some Let_def)

lemma report_txt_shared:
  "format \<noteq> ''pdf'' \<Longrightarrow> writeAsStringAsync env = None \<Longrightarrow> isAvailableAsync env = Inr True \<Longrightarrow>
    shareAsync env = None \<Longrightarrow>
      generateResultReport env (Some rs) score tot format =
        [hd (generateResultReport env (Some rs) score tot format),
         Sharing_shareAsync (documentDirectory env @ ''MCQ_Assessment_Results_''
           @ takeWhile (\<lambda>c. c \<noteq> CHR ''T'') (Date_toISOString env) @ ''.txt'')]"
  by (simp add: generateResultReport_def generateResultReport_try_def report_content_Some Let_def)

lemma report_pdf_not_shareable:
  "printToFileAsync env = Inr uri \<Longrightarrow> isAvailableAsync env = Inr False \<Longrightarrow>
      generateResultReport env (Some rs) score tot ''pdf'' =
        [hd (generateResultReport env (Some rs) score tot ''pdf''),
         Alert ''Sharing not available'' ''Sharing is not available on your device'']"
  by (simp add: generateResultReport_def generateResultReport_try_def report_content_Some Let_def)

lemma report_txt_not_shareable:
  "format \<noteq> ''pdf'' \<Longrightarrow> writeAsStringAsync env = None \<Longrightarrow> isAvailableAsync env = Inr False \<Longrightarrow>
      generateResultReport env (Some rs) score tot format =
        [hd (generateResultReport env (Some rs) score tot format),
         Alert ''Sharing not available'' ''Sharing is not available on your device'']"
  by (simp add: generateResultReport_def generateResultReport_try_def report_content_Some Let_def)

lemma report_pdf_not_written:
  "printToFileAsync env = Inl e \<Longrightarrow>
      generateResultReport env (Some rs) score tot ''pdf'' =
        [hd (generateResultReport env (Some rs) score tot ''pdf''),
         Console_error ''Error generating assessment report:'' e,
         Alert ''Error'' ''Failed to generate assessment report'']"
  by (simp add: generateResultReport_def generateResultReport_try_def report_content_Some Let_def)

lemma report_txt_not_written:
  "format \<noteq> ''pdf'' \<Longrightarrow> writeAsStringAsync env = Some e \<Longrightarrow>
      generateResultReport env (Some rs) score tot format =
        [hd (generateResultReport env (Some rs) score tot format),
         Console_error ''Error generating assessment report:'' e,
         Alert ''Error'' ''Failed to generate assessment report'']"
  by (simp add: generateResultReport_def generateResultReport_try_def report_content_Some Let_def)

lemma unguarded_percentage:
  "Math_round (Number_multiply (Number_divide (Finite (of_nat score)) (Finite (of_nat 0))) (Finite 100))
     = (if score = 0 then NaN else Infinity)"
  by simp

text \<open>
  Claim C8. With a total of 0 the percentage is the Number 0: on the result screen, for
  parameters with total 0 and for absent parameters, and in the report generator, whose
  written report carries percentage 0. In both places the division is under the test
  \<^verbatim>\<open>total > 0\<close>; without it \<^verbatim>\<open>Math.round((score / 0) * 100)\<close> is NaN for score 0 and
  Infinity for a positive score.
\<close>

theorem C8_zero_total_gives_zero_percent:
  "view_percentage (MCQResultScreen
      (Some \<lparr>param_score = score, param_total = 0, param_results = results\<rparr>)) = Finite 0
 \<and> view_percentage (MCQResultScreen None) = Finite 0
 \<and> MCQResultScreen_percentage score 0 = Finite 0
 \<and> generateResultReport_percentage score 0 = Finite 0
 \<and> (\<exists>doc content.
       written_document (hd (generateResultReport env (Some results) score 0 format)) = Some doc
     \<and> report_of doc = Some content
     \<and> doc_percentage content = Finite 0 \<and> doc_total content = 0)
 \<and> Math_round (Number_multiply (Number_divide (Finite (of_nat score)) (Finite (of_nat 0))) (Finite 100))
      = (if score = 0 then NaN else Infinity)
 \<and> MCQResultScreen_percentage score 0
      \<noteq> Math_round (Number_multiply (Number_divide (Finite (of_nat score)) (Finite (of_nat 0))) (Finite 100))
 \<and> generateResultReport_percentage score 0
      \<noteq> Math_round (Number_multiply (Number_divide (Finite (of_nat score)) (Finite (of_nat 0))) (Finite 100))"
proof -
  have "view_percentage (MCQResultScreen
      (Some \<lparr>param_score = score, param_total = 0, param_results = results\<rparr>)) = Finite 0"
    by (simp add: view_percentage_MCQResultScreen MCQResultScreen_percentage_def)
  moreover have "view_percentage (MCQResultScreen None) = Finite 0"
    by (simp add: MCQResultScreen_def MCQResultScreen_percentage_def Let_def)
  moreover have s: "MCQResultScreen_percentage score 0 = Finite 0"
    by (simp add: MCQResultScreen_percentage_def)
  moreover have z: "generateResultReport_percentage score 0 = Finite 0"
    by (simp add: generateResultReport_percentage_def)
  moreover have "\<exists>doc content.
       written_document (hd (generateResultReport env (Some results) score 0 format)) = Some doc
     \<and> report_of doc = Some content
     \<and> doc_percentage content = Finite 0 \<and> doc_total content = 0"
    using hd_report_document [of env results score 0 format] by (auto simp: z)
  moreover note u = unguarded_percentage [of score]
  moreover have "MCQResultScreen_percentage score 0
      \<noteq> Math_round (Number_multiply (Number_divide (Finite (of_nat score)) (Finite (of_nat 0))) (Finite 100))"
    "generateResultReport_percentage score 0
      \<noteq> Math_round (Number_multiply (Number_divide (Finite (of_nat score)) (Finite (of_nat 0))) (Finite 100))"
    by (simp_all only: s z u split: if_splits) simp_all
  ultimately show ?thesis by blast
qed

theorem C8_witness:
  "generateResultReport
     \<lparr>Date_getTime = 1700000000000, Date_toISOString = ''2024-01-15T10:30:00.000Z'',
      documentDirectory = ''file:///data/'', printToFileAsync = Inr ''file:///cache/print.pdf'',
      writeAsStringAsync = None, isAvailableAsync = Inr True, shareAsync = None\<rparr>
     (Some []) 0 0 ''txt''
   = [FileSystem_writeAsStringAsync ''file:///data/MCQ_Assessment_Results_2024-01-15.txt''
        (Report_text \<lparr>doc_grade = ''F'', doc_score = 0, doc_total = 0, doc_percentage = Finite 0,
           doc_results = []\<rparr>),
      Sharing_shareAsync ''file:///data/MCQ_Assessment_Results_2024-01-15.txt'']
 \<and> view_percentage (MCQResultScreen None) = Finite 0
 \<and> Math_round (Number_multiply (Number_divide (Finite 0) (Finite 0)) (Finite 100)) = NaN
 \<and> Math_round (Number_multiply (Number_divide (Finite 3) (Finite 0)) (Finite 100)) = Infinity"
proof -
  have "generateResultReport
     \<lparr>Date_getTime = 1700000000000, Date_toISOString = ''2024-01-15T10:30:00.000Z'',
      documentDirectory = ''file:///data/'', printToFileAsync = Inr ''file:///cache/print.pdf'',
      writeAsStringAsync = None, isAvailableAsync = Inr True, shareAsync = None\<rparr>
     (Some []) 0 0 ''txt''
   = [FileSystem_writeAsStringAsync ''file:///data/MCQ_Assessment_Results_2024-01-15.txt''
        (Report_text \<lparr>doc_grade = ''F'', doc_score = 0, doc_total = 0, doc_percentage = Finite 0,
           doc_results = []\<rparr>),
      Sharing_shareAsync ''file:///data/MCQ_Assessment_Results_2024-01-15.txt'']"
    by (simp add: generateResultReport_def generateResultReport_try_def report_content_Some
        generateResultReport_percentage_def generateResultReport_grade_def Let_def)
  then show ?thesis
    using C8_zero_total_gives_zero_percent [of 0 "[]"]
      C8_zero_total_gives_zero_percent [of 3 "[]"]
    by simp
qed

text \<open>
  Claim C4, as stated, fails for generateResultReport: called with an empty result list
  it writes a report and shows no message.
\<close>

theorem C4_counterexample:
  "list_ex generates_file
     (generateResultReport
        \<lparr>Date_getTime = 1700000000000, Date_toISOString = ''2024-01-15T10:30:00.000Z'',
      documentDirectory = ''file:///data/'', printToFileAsync = Inr ''file:///cache/print.pdf'',
      writeAsStringAsync = None, isAvailableAsync = Inr True, shareAsync = None\<rparr>
        (Some []) 0 0 ''pdf'')
 \<and> \<not> list_ex shows_message
     (generateResultReport
        \<lparr>Date_getTime = 1700000000000, Date_toISOString = ''2024-01-15T10:30:00.000Z'',
      documentDirectory = ''file:///data/'', printToFileAsync = Inr ''file:///cache/print.pdf'',
      writeAsStringAsync = None, isAvailableAsync = Inr True, shareAsync = None\<rparr>
        (Some []) 0 0 ''pdf'')"
  by (simp add: generateResultReport_def generateResultReport_try_def report_content_Some Let_def)

text \<open>
  Claim C4, amended. generateMCQFile, called with a missing or an empty list, makes one
  platform call, the alert "No MCQs to download", and returns false: no file is
  generated. generateResultReport has no such test. With a missing list the TypeError is
  caught before any file is generated, and the alert "Failed to generate assessment
  report" is shown. With an empty list its first platform call generates the report
  (printing the HTML, or writing the text file), with the grade and percentage of the
  score and total and an empty list of detailed results. What follows depends on the
  platform: when the file is generated and sharing is available and succeeds, the file is
  shared and no message is shown; when sharing is not available, the alert "Sharing not
  available" follows; when generating the file fails, the error is logged and the alert
  "Failed to generate assessment report" follows. No call throws to its caller.
\<close>

theorem C4_empty_list_exports:
  "generateMCQFile env None format title = ([Alert ''Error'' ''No MCQs to download''], False)
 \<and> generateMCQFile env (Some []) format title = ([Alert ''Error'' ''No MCQs to download''], False)
 \<and> generateResultReport env None score tot format =
       [Console_error ''Error generating assessment report:'' (TypeError []),
        Alert ''Error'' ''Failed to generate assessment report'']
 \<and> hd (generateResultReport env (Some []) score tot ''pdf'') =
       Print_printToFileAsync (Report_html
         \<lparr>doc_grade = generateResultReport_grade (generateResultReport_percentage score tot),
          doc_score = score, doc_total = tot,
          doc_percentage = generateResultReport_percentage score tot, doc_results = []\<rparr>)
 \<and> (format \<noteq> ''pdf'' \<longrightarrow>
      hd (generateResultReport env (Some []) score tot format) =
       FileSystem_writeAsStringAsync
         (documentDirectory env @ ''MCQ_Assessment_Results_''
            @ takeWhile (\<lambda>c. c \<noteq> CHR ''T'') (Date_toISOString env) @ ''.txt'')
         (Report_text
           \<lparr>doc_grade = generateResultReport_grade (generateResultReport_percentage score tot),
            doc_score = score, doc_total = tot,
            doc_percentage = generateResultReport_percentage score tot, doc_results = []\<rparr>))
 \<and> generates_file (hd (generateResultReport env (Some []) score tot format))
 \<and> (\<forall>uri. printToFileAsync env = Inr uri \<and> isAvailableAsync env = Inr True \<and> shareAsync env = None \<longrightarrow>
      generateResultReport env (Some []) score tot ''pdf'' =
        [hd (generateResultReport env (Some []) score tot ''pdf''), Sharing_shareAsync uri])
 \<and> (format \<noteq> ''pdf'' \<and> writeAsStringAsync env = None \<and> isAvailableAsync env = Inr True
      \<and> shareAsync env = None \<longrightarrow>
      generateResultReport env (Some []) score tot format =
        [hd (generateResultReport env (Some []) score tot format),
         Sharing_shareAsync (documentDirectory env @ ''MCQ_Assessment_Results_''
           @ takeWhile (\<lambda>c. c \<noteq> CHR ''T'') (Date_toISOString env) @ ''.txt'')])
 \<and> (\<forall>uri. printToFileAsync env = Inr uri \<and> isAvailableAsync env = Inr False \<longrightarrow>
      generateResultReport env (Some []) score tot ''pdf'' =
        [hd (generateResultReport env (Some []) score tot ''pdf''),
         Alert ''Sharing not available'' ''Sharing is not available on your device''])
 \<and> (format \<noteq> ''pdf'' \<and> writeAsStringAsync env = None \<and> isAvailableAsync env = Inr False \<longrightarrow>
      generateResultReport env (Some []) score tot format =
        [hd (generateResultReport env (Some []) score tot format),
         Alert ''Sharing not available'' ''Sharing is not available on your device''])
 \<and> (\<forall>e. printToFileAsync env = Inl e \<longrightarrow>
      generateResultReport env (Some []) score tot ''pdf'' =
        [hd (generateResultReport env (Some []) score tot ''pdf''),
         Console_error ''Error generating assessment report:'' e,
         Alert ''Error'' ''Failed to generate assessment report''])
 \<and> (\<forall>e. format \<noteq> ''pdf'' \<and> writeAsStringAsync env = Some e \<longrightarrow>
      generateResultReport env (Some []) score tot format =
        [hd (generateResultReport env (Some []) score tot format),
         Console_error ''Error generating assessment report:'' e,
         Alert ''Error'' ''Failed to generate assessment report''])"
proof (intro conjI allI impI; (elim conjE)?)
  show "generateMCQFile env None format title = ([Alert ''Error'' ''No MCQs to download''], False)"
    and "generateMCQFile env (Some []) format title = ([Alert ''Error'' ''No MCQs to download''], False)"
    by (rule mcq_file_empty)+
  show "generateResultReport env None score tot format =
       [Console_error ''Error generating assessment report:'' (TypeError []),
        Alert ''Error'' ''Failed to generate assessment report'']"
    by (rule report_missing)
  show "hd (generateResultReport env (Some []) score tot ''pdf'') =
       Print_printToFileAsync (Report_html
         \<lparr>doc_grade = generateResultReport_grade (generateResultReport_percentage score tot),
          doc_score = score, doc_total = tot,
          doc_percentage = generateResultReport_percentage score tot, doc_results = []\<rparr>)"
    by (rule hd_report_pdf)
  show "generates_file (hd (generateResultReport env (Some []) score tot format))"
    by (cases "format = ''pdf''") (simp_all add: hd_report_pdf hd_report_txt)
next
  assume "format \<noteq> ''pdf''"
  then show "hd (generateResultReport env (Some []) score tot format) =
       FileSystem_writeAsStringAsync
         (documentDirectory env @ ''MCQ_Assessment_Results_''
            @ takeWhile (\<lambda>c. c \<noteq> CHR ''T'') (Date_toISOString env) @ ''.txt'')
         (Report_text
           \<lparr>doc_grade = generateResultReport_grade (generateResultReport_percentage score tot),
            doc_score = score, doc_total = tot,
            doc_percentage = generateResultReport_percentage score tot, doc_results = []\<rparr>)"
    by (rule hd_report_txt)
next
  fix uri
  assume "printToFileAsync env = Inr uri" "isAvailableAsync env = Inr True" "shareAsync env = None"
  then show "generateResultReport env (Some []) score tot ''pdf'' =
        [hd (generateResultReport env (Some []) score tot ''pdf''), Sharing_shareAsync uri]"
    by (rule report_pdf_shared)
next
  assume "format \<noteq> ''pdf''" "writeAsStringAsync env = None" "isAvailableAsync env = Inr True"
    "shareAsync env = None"
  then show "generateResultReport env (Some []) score tot format =
        [hd (generateResultReport env (Some []) score tot format),
         Sharing_shareAsync (documentDirectory env @ ''MCQ_Assessment_Results_''
           @ takeWhile (\<lambda>c. c \<noteq> CHR ''T'') (Date_toISOString env) @ ''.txt'')]"
    by (rule report_txt_shared)
next
  fix uri
  assume "printToFileAsync env = Inr uri" "isAvailableAsync env = Inr False"
  then show "generateResultReport env (Some []) score tot ''pdf'' =
        [hd (generateResultReport env (Some []) score tot ''pdf''),
         Alert ''Sharing not available'' ''Sharing is not available on your device'']"
    by (rule report_pdf_not_shareable)
next
  assume "format \<noteq> ''pdf''" "writeAsStringAsync env = None" "isAvailableAsync env = Inr False"
  then show "generateResultReport env (Some []) score tot format =
        [hd (generateResultReport env (Some []) score tot format),
         Alert ''Sharing not available'' ''Sharing is not available on your device'']"
    by (rule report_txt_not_shareable)
next
  fix e
  assume "printToFileAsync env = Inl e"
  then show "generateResultReport env (Some []) score tot ''pdf'' =
        [hd (generateResultReport env (Some []) score tot ''pdf''),
         Console_error ''Error generating assessment report:'' e,
         Alert ''Error'' ''Failed to generate assessment report'']"
    by (rule report_pdf_not_written)
next
  fix e
  assume "format \<noteq> ''pdf''" "writeAsStringAsync env = Some e"
  then show "generateResultReport env (Some []) score tot format =
        [hd (generateResultReport env (Some []) score tot format),
         Console_error ''Error generating assessment report:'' e,
         Alert ''Error'' ''Failed to generate assessment report'']"
    by (rule report_txt_not_written)
qed

theorem C4_witness:
  "generateMCQFile
     \<lparr>Date_getTime = 1700000000000, Date_toISOString = ''2024-01-15T10:30:00.000Z'',
      documentDirectory = ''file:///data/'', printToFileAsync = Inr ''file:///cache/print.pdf'',
      writeAsStringAsync = None, isAvailableAsync = Inr True, shareAsync = None\<rparr>
     (Some []) ''pdf'' ''Generated MCQs'' = ([Alert ''Error'' ''No MCQs to download''], False)
 \<and> generateResultReport
     \<lparr>Date_getTime = 1700000000000, Date_toISOString = ''2024-01-15T10:30:00.000Z'',
      documentDirectory = ''file:///data/'', printToFileAsync = Inr ''file:///cache/print.pdf'',
      writeAsStringAsync = None, isAvailableAsync = Inr True, shareAsync = None\<rparr>
     (Some []) 0 0 ''pdf''
   = [Print_printToFileAsync (Report_html
        \<lparr>doc_grade = ''F'', doc_score = 0, doc_total = 0, doc_percentage = Finite 0,
         doc_results = []\<rparr>),
      Sharing_shareAsync ''file:///cache/print.pdf'']
 \<and> generateResultReport
     \<lparr>Date_getTime = 1700000000000, Date_toISOString = ''2024-01-15T10:30:00.000Z'',
      documentDirectory = ''file:///data/'', printToFileAsync = Inr ''file:///cache/print.pdf'',
      writeAsStringAsync = None, isAvailableAsync = Inr False, shareAsync = None\<rparr>
     (Some []) 0 0 ''txt''
   = [FileSystem_writeAsStringAsync ''file:///data/MCQ_Assessment_Results_2024-01-15.txt''
        (Report_text \<lparr>doc_grade = ''F'', doc_score = 0, doc_total = 0, doc_percentage = Finite 0,
           doc_results = []\<rparr>),
      Alert ''Sharing not available'' ''Sharing is not available on your device'']
 \<and> generateResultReport
     \<lparr>Date_getTime = 1700000000000, Date_toISOString = ''2024-01-15T10:30:00.000Z'',
      documentDirectory = ''file:///data/'', printToFileAsync = Inl (Error ''Printing failed''),
      writeAsStringAsync = None, isAvailableAsync = Inr True, shareAsync = None\<rparr>
     (Some []) 0 0 ''pdf''
   = [Print_printToFileAsync (Report_html
        \<lparr>doc_grade = ''F'', doc_score = 0, doc_total = 0, doc_percentage = Finite 0,
         doc_results = []\<rparr>),
      Console_error ''Error generating assessment report:'' (Error ''Printing failed''),
      Alert ''Error'' ''Failed to generate assessment report'']"
proof -
  let ?ok = "\<lparr>Date_getTime = 1700000000000, Date_toISOString = ''2024-01-15T10:30:00.000Z'',
      documentDirectory = ''file:///data/'', printToFileAsync = Inr ''file:///cache/print.pdf'',
      writeAsStringAsync = None, isAvailableAsync = Inr True, shareAsync = None\<rparr>"
  let ?noshare = "\<lparr>Date_getTime = 1700000000000, Date_toISOString = ''2024-01-15T10:30:00.000Z'',
      documentDirectory = ''file:///data/'', printToFileAsync = Inr ''file:///cache/print.pdf'',
      writeAsStringAsync = None, isAvailableAsync = Inr False, shareAsync = None\<rparr>"
  let ?noprint = "\<lparr>Date_getTime = 1700000000000, Date_toISOString = ''2024-01-15T10:30:00.000Z'',
      documentDirectory = ''file:///data/'', printToFileAsync = Inl (Error ''Printing failed''),
      writeAsStringAsync = None, isAvailableAsync = Inr True, shareAsync = None\<rparr>"
  have grade: "generateResultReport_percentage 0 0 = Finite 0"
    "generateResultReport_grade (Finite 0) = ''F''"
    by (simp_all add: generateResultReport_percentage_def generateResultReport_grade_def)
  note ok = C4_empty_list_exports [of ?ok "''pdf''" "''Generated MCQs''" 0 0]
  note noshare = C4_empty_list_exports [of ?noshare "''txt''" "''Generated MCQs''" 0 0]
  note noprint = C4_empty_list_exports [of ?noprint "''pdf''" "''Generated MCQs''" 0 0]
  have 1: "generateMCQFile ?ok (Some []) ''pdf'' ''Generated MCQs''
      = ([Alert ''Error'' ''No MCQs to download''], False)"
    using ok by blast
  have "hd (generateResultReport ?ok (Some []) 0 0 ''pdf'')
      = Print_printToFileAsync (Report_html
        \<lparr>doc_grade = ''F'', doc_score = 0, doc_total = 0, doc_percentage = Finite 0,
         doc_results = []\<rparr>)"
    using ok by (simp add: grade)
  moreover have "generateResultReport ?ok (Some []) 0 0 ''pdf''
      = [hd (generateResultReport ?ok (Some []) 0 0 ''pdf''),
         Sharing_shareAsync ''file:///cache/print.pdf'']"
    using ok by (elim conjE allE [of _ "''file:///cache/print.pdf''"]) simp
  ultimately have 2: "generateResultReport ?ok (Some []) 0 0 ''pdf''
   = [Print_printToFileAsync (Report_html
        \<lparr>doc_grade = ''F'', doc_score = 0, doc_total = 0, doc_percentage = Finite 0,
         doc_results = []\<rparr>),
      Sharing_shareAsync ''file:///cache/print.pdf'']"
    by metis
  have "hd (generateResultReport ?noshare (Some []) 0 0 ''txt'')
      = FileSystem_writeAsStringAsync ''file:///data/MCQ_Assessment_Results_2024-01-15.txt''
        (Report_text \<lparr>doc_grade = ''F'', doc_score = 0, doc_total = 0, doc_percentage = Finite 0,
           doc_results = []\<rparr>)"
    using noshare by (simp add: grade)
  moreover have "generateResultReport ?noshare (Some []) 0 0 ''txt''
      = [hd (generateResultReport ?noshare (Some []) 0 0 ''txt''),
         Alert ''Sharing not available'' ''Sharing is not available on your device'']"
    using noshare by (elim conjE) simp
  ultimately have 3: "generateResultReport ?noshare (Some []) 0 0 ''txt''
   = [FileSystem_writeAsStringAsync ''file:///data/MCQ_Assessment_Results_2024-01-15.txt''
        (Report_text \<lparr>doc_grade = ''F'', doc_score = 0, doc_total = 0, doc_percentage = Finite 0,
           doc_results = []\<rparr>),
      Alert ''Sharing not available'' ''Sharing is not available on your device'']"
    by metis
  have "hd (generateResultReport ?noprint (Some []) 0 0 ''pdf'')
      = Print_printToFileAsync (Report_html
        \<lparr>doc_grade = ''F'', doc_score = 0, doc_total = 0, doc_percentage = Finite 0,
         doc_results = []\<rparr>)"
    using noprint by (simp add: grade)
  moreover have "generateResultReport ?noprint (Some []) 0 0 ''pdf''
      = [hd (generateResultReport ?noprint (Some []) 0 0 ''pdf''),
         Console_error ''Error generating assessment report:'' (Error ''Printing failed''),
         Alert ''Error'' ''Failed to generate assessment report'']"
    using noprint by (elim conjE allE [of _ "Error ''Printing failed''"]) simp
  ultimately have 4: "generateResultReport ?noprint (Some []) 0 0 ''pdf''
   = [Print_printToFileAsync (Report_html
        \<lparr>doc_grade = ''F'', doc_score = 0, doc_total = 0, doc_percentage = Finite 0,
         doc_results = []\<rparr>),
      Console_error ''Error generating assessment report:'' (Error ''Printing failed''),
      Alert ''Error'' ''Failed to generate assessment report'']"
    by metis
  from 1 2 3 4 show ?thesis by blast
qed

subsection \<open>Options and the correct answer\<close>

lemma length_shuffledMcqs: "length (fst (shuffledMcqs Array_sort mcqs rnd)) = length mcqs"
  by (induction mcqs arbitrary: rnd) (simp_all add: case_prod_unfold Let_def)

lemma nth_shuffledMcqs:
  assumes "\<forall>xs rnd. mset (fst (Array_sort shuffle_compare xs rnd)) = mset xs"
  shows "i < length mcqs \<Longrightarrow>
     mset (options (fst (shuffledMcqs Array_sort mcqs rnd) ! i)) = mset (options (mcqs ! i))
   \<and> correctAnswer (fst (shuffledMcqs Array_sort mcqs rnd) ! i) = correctAnswer (mcqs ! i)
   \<and> question (fst (shuffledMcqs Array_sort mcqs rnd) ! i) = question (mcqs ! i)"
proof (induction mcqs arbitrary: rnd i)
  case Nil
  then show ?case by simp
next
  case (Cons mcq rest)
  show ?case
  proof (cases i)
    case 0
    then show ?thesis
      using assms by (simp add: case_prod_unfold Let_def)
  next
    case (Suc j)
    with Cons.prems have "j < length rest" by simp
    from Cons.IH [OF this] Suc show ?thesis
      by (simp add: case_prod_unfold Let_def)
  qed
qed

lemma count_list_mset: "count_list xs x = count (mset xs) x"
  by (induction xs) simp_all

lemma useEffect_nth:
  assumes "\<forall>xs rnd. mset (fst (Array_sort shuffle_compare xs rnd)) = mset xs"
      and "i < length generatedMCQs"
  shows "mset (options (MCQAssessmentScreen_useEffect Array_sort generatedMCQs rnd mcqs ! i))
           = mset (answer (generatedMCQs ! i) # distractors (generatedMCQs ! i))
       \<and> correctAnswer (MCQAssessmentScreen_useEffect Array_sort generatedMCQs rnd mcqs ! i)
           = answer (generatedMCQs ! i)
       \<and> question (MCQAssessmentScreen_useEffect Array_sort generatedMCQs rnd mcqs ! i)
           = question (generatedMCQs ! i)"
proof -
  let ?f = "MCQAssessmentScreen_formattedMcqs generatedMCQs"
  have len: "i < length ?f"
    using assms(2) by (simp add: MCQAssessmentScreen_formattedMcqs_def)
  have f: "?f ! i = MCQAssessmentScreen_format (generatedMCQs ! i)"
    using assms(2) by (simp add: MCQAssessmentScreen_formattedMcqs_def)
  have "MCQAssessmentScreen_useEffect Array_sort generatedMCQs rnd mcqs
      = fst (shuffledMcqs Array_sort ?f rnd)"
    using assms(2) by (auto simp: MCQAssessmentScreen_useEffect_def)
  moreover have "mset (options (fst (shuffledMcqs Array_sort ?f rnd) ! i)) = mset (options (?f ! i))
      \<and> correctAnswer (fst (shuffledMcqs Array_sort ?f rnd) ! i) = correctAnswer (?f ! i)
      \<and> question (fst (shuffledMcqs Array_sort ?f rnd) ! i) = question (?f ! i)"
    using assms(1) len by (rule nth_shuffledMcqs)
  ultimately show ?thesis
    using f by (simp add: MCQAssessmentScreen_format_def)
qed

lemma useEffect_length:
  "generatedMCQs \<noteq> [] \<Longrightarrow>
     length (MCQAssessmentScreen_useEffect Array_sort generatedMCQs rnd mcqs) = length generatedMCQs"
  by (simp add: MCQAssessmentScreen_useEffect_def length_shuffledMcqs
      MCQAssessmentScreen_formattedMcqs_def)

text \<open>
  Claim C5, as stated, fails: with the answer repeated among the distractors the
  assembled options hold the correct answer twice.
\<close>

theorem C5_counterexample:
  "count_list
     (options (MCQAssessmentScreen_format
        \<lparr>question = ''2 + 2?'', answer = ''4'', distractors = [''4'', ''5'']\<rparr>))
     (correctAnswer (MCQAssessmentScreen_format
        \<lparr>question = ''2 + 2?'', answer = ''4'', distractors = [''4'', ''5'']\<rparr>)) = 2
 \<and> count_list
     (options (generateMCQFile_format
        \<lparr>question = ''2 + 2?'', answer = ''4'', distractors = [''4'', ''5'']\<rparr>))
     (correctAnswer (generateMCQFile_format
        \<lparr>question = ''2 + 2?'', answer = ''4'', distractors = [''4'', ''5'']\<rparr>)) \<noteq> 1"
  by (simp add: MCQAssessmentScreen_format_def generateMCQFile_format_def)

text \<open>
  Claim C5, amended. In a record assembled from an answer and its distractors (by the
  assessment screen and, identically, by the file generator) the correct answer is the
  first option and occurs once more than the answer occurs among the distractors: at
  least once, and exactly once if and only if no distractor equals the answer. The
  count is the same after the assessment screen has shuffled the options, for an engine
  whose sort returns a rearrangement of the array it is given.
\<close>

theorem C5_correct_answer_among_options:
  "hd (options (MCQAssessmentScreen_format mcq)) = correctAnswer (MCQAssessmentScreen_format mcq)
 \<and> count_list (options (MCQAssessmentScreen_format mcq)) (correctAnswer (MCQAssessmentScreen_format mcq))
      = 1 + count_list (distractors mcq) (answer mcq)
 \<and> (count_list (options (MCQAssessmentScreen_format mcq)) (correctAnswer (MCQAssessmentScreen_format mcq)) = 1
      \<longleftrightarrow> answer mcq \<notin> set (distractors mcq))
 \<and> generateMCQFile_format mcq = MCQAssessmentScreen_format mcq
 \<and> ((\<forall>xs rnd. mset (fst (Array_sort shuffle_compare xs rnd)) = mset xs) \<longrightarrow>
     (\<forall>i < length generatedMCQs.
       count_list (options (MCQAssessmentScreen_useEffect Array_sort generatedMCQs rnd mcqs ! i))
         (correctAnswer (MCQAssessmentScreen_useEffect Array_sort generatedMCQs rnd mcqs ! i))
       = 1 + count_list (distractors (generatedMCQs ! i)) (answer (generatedMCQs ! i))))"
proof -
  have "(\<forall>xs rnd. mset (fst (Array_sort shuffle_compare xs rnd)) = mset xs) \<longrightarrow>
     (\<forall>i < length generatedMCQs.
       count_list (options (MCQAssessmentScreen_useEffect Array_sort generatedMCQs rnd mcqs ! i))
         (correctAnswer (MCQAssessmentScreen_useEffect Array_sort generatedMCQs rnd mcqs ! i))
       = 1 + count_list (distractors (generatedMCQs ! i)) (answer (generatedMCQs ! i)))"
    by (simp add: count_list_mset useEffect_nth)
  then show ?thesis
    by (simp add: MCQAssessmentScreen_format_def generateMCQFile_format_def count_list_0_iff)
qed

theorem C5_witness:
  "count_list
     (options (MCQAssessmentScreen_format
        \<lparr>question = ''2 + 2?'', answer = ''4'', distractors = [''3'', ''5'']\<rparr>))
     (correctAnswer (MCQAssessmentScreen_format
        \<lparr>question = ''2 + 2?'', answer = ''4'', distractors = [''3'', ''5'']\<rparr>)) = 1
 \<and> count_list
     (options (MCQAssessmentScreen_useEffect (\<lambda>compareFn xs rnd. (rev xs, rnd))
        [\<lparr>question = ''2 + 2?'', answer = ''4'', distractors = [''3'', ''5'']\<rparr>]
        (\<lambda>n. if n = 0 then 1 / 4 else 3 / 4) [] ! 0))
     (correctAnswer (MCQAssessmentScreen_useEffect (\<lambda>compareFn xs rnd. (rev xs, rnd))
        [\<lparr>question = ''2 + 2?'', answer = ''4'', distractors = [''3'', ''5'']\<rparr>]
        (\<lambda>n. if n = 0 then 1 / 4 else 3 / 4) [] ! 0)) = 1"
  using C5_correct_answer_among_options
    [of "\<lparr>question = ''2 + 2?'', answer = ''4'', distractors = [''3'', ''5'']\<rparr>"
        "\<lambda>compareFn xs rnd. (rev xs, rnd)"
        "[\<lparr>question = ''2 + 2?'', answer = ''4'', distractors = [''3'', ''5'']\<rparr>]"
        "\<lambda>n. if n = 0 then 1 / 4 else 3 / 4" "[]"]
  by simp

subsection \<open>Shuffling\<close>



subsection \<open>The two record shapes\<close>

lemma mset_recombine:
  "mset (c # filter (\<lambda>x. x \<noteq> c) xs) + replicate_mset (count_list xs c) c = add_mset c (mset xs)"
  by (induction xs) simp_all

lemma length_recombine:
  "length (c # filter (\<lambda>x. x \<noteq> c) xs) + count_list xs c = Suc (length xs)"
  by (induction xs) simp_all

lemma options_recombined:
  "options (MCQAssessmentScreen_format (formatMCQForDownload mcq))
     = correct_answer mcq # filter (\<lambda>x. x \<noteq> correct_answer mcq) (options mcq)"
  "options (generateMCQFile_format (formatMCQForDownload mcq))
     = correct_answer mcq # filter (\<lambda>x. x \<noteq> correct_answer mcq) (options mcq)"
  by (simp_all add: MCQAssessmentScreen_format_def generateMCQFile_format_def formatMCQForDownload_def)

lemma recombined_once:
  "count_list (options mcq) (correct_answer mcq) = 1 \<Longrightarrow>
     mset (correct_answer mcq # filter (\<lambda>x. x \<noteq> correct_answer mcq) (options mcq))
       = mset (options mcq)"
  using mset_recombine [of "correct_answer mcq" "options mcq"] by simp

lemma recombined_more:
  "1 < count_list (options mcq) (correct_answer mcq) \<Longrightarrow>
     length (correct_answer mcq # filter (\<lambda>x. x \<noteq> correct_answer mcq) (options mcq))
       < length (options mcq)"
  using length_recombine [of "correct_answer mcq" "options mcq"] by linarith

text \<open>
  Claim C10. formatMCQsForDownload keeps the number of records and, in each, takes
  \<^verbatim>\<open>correct_answer\<close> as the answer and the options other than it as the distractors.
  Recombining each answer with its distractors (as the assessment screen and the file
  generator do) gives, where \<^verbatim>\<open>correct_answer\<close> occurs exactly once among the options, a
  list with the multiset of the original options; where it occurs more than once, a
  strictly shorter list.
\<close>

theorem C10_download_format_round_trip:
  "length (formatMCQsForDownload mcqs) = length mcqs
 \<and> (\<forall>i < length mcqs.
      question (formatMCQsForDownload mcqs ! i) = question (mcqs ! i)
    \<and> answer (formatMCQsForDownload mcqs ! i) = correct_answer (mcqs ! i)
    \<and> distractors (formatMCQsForDownload mcqs ! i)
        = filter (\<lambda>option. option \<noteq> correct_answer (mcqs ! i)) (options (mcqs ! i))
    \<and> options (MCQAssessmentScreen_formattedMcqs (formatMCQsForDownload mcqs) ! i)
        = correct_answer (mcqs ! i)
          # filter (\<lambda>option. option \<noteq> correct_answer (mcqs ! i)) (options (mcqs ! i))
    \<and> map generateMCQFile_format (formatMCQsForDownload mcqs) ! i
        = MCQAssessmentScreen_formattedMcqs (formatMCQsForDownload mcqs) ! i
    \<and> (count_list (options (mcqs ! i)) (correct_answer (mcqs ! i)) = 1 \<longrightarrow>
         mset (options (MCQAssessmentScreen_formattedMcqs (formatMCQsForDownload mcqs) ! i))
           = mset (options (mcqs ! i)))
    \<and> (1 < count_list (options (mcqs ! i)) (correct_answer (mcqs ! i)) \<longrightarrow>
         length (options (MCQAssessmentScreen_formattedMcqs (formatMCQsForDownload mcqs) ! i))
           < length (options (mcqs ! i))))"
proof -
  have len: "length (formatMCQsForDownload mcqs) = length mcqs"
    by (simp add: formatMCQsForDownload_def)
  have each: "question (formatMCQsForDownload mcqs ! i) = question (mcqs ! i)
    \<and> answer (formatMCQsForDownload mcqs ! i) = correct_answer (mcqs ! i)
    \<and> distractors (formatMCQsForDownload mcqs ! i)
        = filter (\<lambda>option. option \<noteq> correct_answer (mcqs ! i)) (options (mcqs ! i))
    \<and> options (MCQAssessmentScreen_formattedMcqs (formatMCQsForDownload mcqs) ! i)
        = correct_answer (mcqs ! i)
          # filter (\<lambda>option. option \<noteq> correct_answer (mcqs ! i)) (options (mcqs ! i))
    \<and> map generateMCQFile_format (formatMCQsForDownload mcqs) ! i
        = MCQAssessmentScreen_formattedMcqs (formatMCQsForDownload mcqs) ! i
    \<and> (count_list (options (mcqs ! i)) (correct_answer (mcqs ! i)) = 1 \<longrightarrow>
         mset (options (MCQAssessmentScreen_formattedMcqs (formatMCQsForDownload mcqs) ! i))
           = mset (options (mcqs ! i)))
    \<and> (1 < count_list (options (mcqs ! i)) (correct_answer (mcqs ! i)) \<longrightarrow>
         length (options (MCQAssessmentScreen_formattedMcqs (formatMCQsForDownload mcqs) ! i))
           < length (options (mcqs ! i)))"
    if i: "i < length mcqs" for i
  proof -
    have f: "formatMCQsForDownload mcqs ! i = formatMCQForDownload (mcqs ! i)"
      using i by (simp add: formatMCQsForDownload_def)
    have a: "MCQAssessmentScreen_formattedMcqs (formatMCQsForDownload mcqs) ! i
        = MCQAssessmentScreen_format (formatMCQForDownload (mcqs ! i))"
      using i by (simp add: MCQAssessmentScreen_formattedMcqs_def formatMCQsForDownload_def)
    have g: "map generateMCQFile_format (formatMCQsForDownload mcqs) ! i
        = generateMCQFile_format (formatMCQForDownload (mcqs ! i))"
      using i by (simp add: formatMCQsForDownload_def)
    have same: "generateMCQFile_format (formatMCQForDownload (mcqs ! i))
        = MCQAssessmentScreen_format (formatMCQForDownload (mcqs ! i))"
      by (simp add: generateMCQFile_format_def MCQAssessmentScreen_format_def)
    show ?thesis
      using recombined_once [of "mcqs ! i"] recombined_more [of "mcqs ! i"]
      by (simp add: f a g same options_recombined) (simp add: formatMCQForDownload_def)
  qed
  from len each show ?thesis by blast
qed

theorem C10_witness:
  "length (formatMCQsForDownload
      [\<lparr>question = ''2 + 2?'', options = [''3'', ''4'', ''5''], correct_answer = ''4''\<rparr>,
       \<lparr>question = ''3 + 1?'', options = [''4'', ''3'', ''4''], correct_answer = ''4''\<rparr>]) = 2
 \<and> mset (options (MCQAssessmentScreen_formattedMcqs (formatMCQsForDownload
      [\<lparr>question = ''2 + 2?'', options = [''3'', ''4'', ''5''], correct_answer = ''4''\<rparr>,
       \<lparr>question = ''3 + 1?'', options = [''4'', ''3'', ''4''], correct_answer = ''4''\<rparr>]) ! 0))
     = mset [''3'', ''4'', ''5'']
 \<and> length (options (MCQAssessmentScreen_formattedMcqs (formatMCQsForDownload
      [\<lparr>question = ''2 + 2?'', options = [''3'', ''4'', ''5''], correct_answer = ''4''\<rparr>,
       \<lparr>question = ''3 + 1?'', options = [''4'', ''3'', ''4''], correct_answer = ''4''\<rparr>]) ! 1)) < 3"
proof -
  let ?mcqs = "[\<lparr>question = ''2 + 2?'', options = [''3'', ''4'', ''5''], correct_answer = ''4''\<rparr>,
       \<lparr>question = ''3 + 1?'', options = [''4'', ''3'', ''4''], correct_answer = ''4''\<rparr>]"
  note r = C10_download_format_round_trip [of ?mcqs]
  from r have "length (formatMCQsForDownload ?mcqs) = 2" by simp
  moreover from r have "count_list (options (?mcqs ! 0)) (correct_answer (?mcqs ! 0)) = 1 \<longrightarrow>
      mset (options (MCQAssessmentScreen_formattedMcqs (formatMCQsForDownload ?mcqs) ! 0))
        = mset (options (?mcqs ! 0))"
    by (elim conjE allE [of _ 0]) simp
  then have "mset (options (MCQAssessmentScreen_formattedMcqs (formatMCQsForDownload ?mcqs) ! 0))
      = mset [''3'', ''4'', ''5'']"
    by simp
  moreover from r have "1 < count_list (options (?mcqs ! 1)) (correct_answer (?mcqs ! 1)) \<longrightarrow>
      length (options (MCQAssessmentScreen_formattedMcqs (formatMCQsForDownload ?mcqs) ! 1))
        < length (options (?mcqs ! 1))"
    by (elim conjE allE [of _ 1]) simp
  then have "length (options (MCQAssessmentScreen_formattedMcqs (formatMCQsForDownload ?mcqs) ! 1)) < 3"
    by simp
  ultimately show ?thesis by blast
qed

subsection \<open>The API service\<close>

lemma catch_is_Error: "\<exists>m. generateMCQsFromAPI_catch error = Error m"
  by (simp add: generateMCQsFromAPI_catch_def)

lemma try_fails: "request_fails (race net) \<Longrightarrow> \<exists>e. generateMCQsFromAPI_try net = Inl e"
  by (cases "race net" rule: request_fails.cases)
    (auto simp: generateMCQsFromAPI_try_def split: sum.splits)

lemma try_succeeds:
  "generateMCQsFromAPI_try net = Inr mcqs \<Longrightarrow> \<not> request_fails (race net)"
  using try_fails [of net] by auto

lemma fetch_count:
  "length (filter is_HTTP_fetch (fst (generateMCQsFromAPI net content numQuestions)))
     = (if isConnected net then 1 else 0)"
  by (simp add: generateMCQsFromAPI_def)

text \<open>
  Claim C6. When the request fails (a response that is not ok, the timeout, or a
  rejected fetch), generateMCQsFromAPI throws an Error, and it has sent exactly one HTTP
  request. No call sends more than one request, a call returns normally only when the
  request did not fail, and without a connection the call throws before sending any.
\<close>

theorem C6_request_failure_throws_after_one_fetch:
  "(isConnected net \<and> request_fails (race net) \<longrightarrow>
      (\<exists>m. snd (generateMCQsFromAPI net content numQuestions) = Inl (Error m))
    \<and> length (filter is_HTTP_fetch (fst (generateMCQsFromAPI net content numQuestions))) = 1)
 \<and> (\<not> isConnected net \<longrightarrow>
      generateMCQsFromAPI net content numQuestions
        = ([NetInfo_fetch],
           Inl (Error ''No internet connection. Please check your network and try again.'')))
 \<and> length (filter is_HTTP_fetch (fst (generateMCQsFromAPI net content numQuestions))) \<le> 1
 \<and> (\<forall>mcqs. snd (generateMCQsFromAPI net content numQuestions) = Inr mcqs \<longrightarrow>
      isConnected net \<and> \<not> request_fails (race net))"
proof -
  have 1: "\<exists>m. snd (generateMCQsFromAPI net content numQuestions) = Inl (Error m)"
    if "isConnected net" "request_fails (race net)"
  proof -
    from that(2) obtain e where "generateMCQsFromAPI_try net = Inl e"
      using try_fails by blast
    with that(1) catch_is_Error [of e] show ?thesis
      by (auto simp: generateMCQsFromAPI_def)
  qed
  have 2: "isConnected net \<and> \<not> request_fails (race net)"
    if "snd (generateMCQsFromAPI net content numQuestions) = Inr mcqs" for mcqs
    using that try_succeeds [of net]
    by (auto simp: generateMCQsFromAPI_def split: if_splits sum.splits)
  have 3: "\<not> isConnected net \<longrightarrow>
      generateMCQsFromAPI net content numQuestions
        = ([NetInfo_fetch],
           Inl (Error ''No internet connection. Please check your network and try again.''))"
    by (simp add: generateMCQsFromAPI_def)
  from 1 2 3 show ?thesis
    by (simp add: fetch_count)
qed

lemma server_error_example:
  "generateMCQsFromAPI
     \<lparr>isConnected = True,
      race = Fetch_first (Fetch_response
        \<lparr>response_ok = False, response_status = 500, response_text = Inr ''Internal Server Error'',
         response_json = Inl (Error ''Unexpected token'')\<rparr>)\<rparr>
     ''The cell is the unit of life.'' 5
   = ([NetInfo_fetch, HTTP_fetch ''http://192.168.1.16:8000/generate-mcqs'' ''The cell is the unit of life.'' 5],
      Inl (Error ''Connection error: Server error (500): Internal Server Error''))"
  by code_simp

lemma offline_example:
  "generateMCQsFromAPI \<lparr>isConnected = False, race = Timeout_first\<rparr> ''text'' 3
   = ([NetInfo_fetch],
      Inl (Error ''No internet connection. Please check your network and try again.''))"
  by (simp add: generateMCQsFromAPI_def)

lemma success_example:
  "generateMCQsFromAPI
     \<lparr>isConnected = True,
      race = Fetch_first (Fetch_response
        \<lparr>response_ok = True, response_status = 200, response_text = Inr [],
         response_json = Inr (Some
           [\<lparr>question = ''2 + 2?'', answer = ''4'', distractors = [''3'', ''5'']\<rparr>])\<rparr>)\<rparr>
     ''text'' 3
   = ([NetInfo_fetch, HTTP_fetch ''http://192.168.1.16:8000/generate-mcqs'' ''text'' 3],
      Inr [\<lparr>question = ''2 + 2?'', answer = ''4'', distractors = [''3'', ''5'']\<rparr>])"
  by (simp add: generateMCQsFromAPI_def generateMCQsFromAPI_try_def getBaseUrl_def)

theorem C6_witness:
  "snd (generateMCQsFromAPI
     \<lparr>isConnected = True,
      race = Fetch_first (Fetch_response
        \<lparr>response_ok = False, response_status = 500, response_text = Inr ''Internal Server Error'',
         response_json = Inl (Error ''Unexpected token'')\<rparr>)\<rparr>
     ''The cell is the unit of life.'' 5)
   = Inl (Error ''Connection error: Server error (500): Internal Server Error'')
 \<and> length (filter is_HTTP_fetch (fst (generateMCQsFromAPI
     \<lparr>isConnected = True,
      race = Fetch_first (Fetch_response
        \<lparr>response_ok = False, response_status = 500, response_text = Inr ''Internal Server Error'',
         response_json = Inl (Error ''Unexpected token'')\<rparr>)\<rparr>
     ''The cell is the unit of life.'' 5))) = 1
 \<and> generateMCQsFromAPI \<lparr>isConnected = False, race = Timeout_first\<rparr> ''text'' 3
   = ([NetInfo_fetch],
      Inl (Error ''No internet connection. Please check your network and try again.''))
 \<and> snd (generateMCQsFromAPI
     \<lparr>isConnected = True,
      race = Fetch_first (Fetch_response
        \<lparr>response_ok = True, response_status = 200, response_text = Inr [],
         response_json = Inr (Some
           [\<lparr>question = ''2 + 2?'', answer = ''4'', distractors = [''3'', ''5'']\<rparr>])\<rparr>)\<rparr>
     ''text'' 3)
   = Inr [\<lparr>question = ''2 + 2?'', answer = ''4'', distractors = [''3'', ''5'']\<rparr>]
 \<and> \<not> request_fails (Fetch_first (Fetch_response
        \<lparr>response_ok = True, response_status = 200, response_text = Inr [],
         response_json = Inr (Some
           [\<lparr>question = ''2 + 2?'', answer = ''4'', distractors = [''3'', ''5'']\<rparr>])\<rparr>))"
proof -
  let ?failing = "\<lparr>isConnected = True,
      race = Fetch_first (Fetch_response
        \<lparr>response_ok = False, response_status = 500, response_text = Inr ''Internal Server Error'',
         response_json = Inl (Error ''Unexpected token'')\<rparr>)\<rparr>"
  let ?offline = "\<lparr>isConnected = False, race = Timeout_first\<rparr>"
  let ?answering = "\<lparr>isConnected = True,
      race = Fetch_first (Fetch_response
        \<lparr>response_ok = True, response_status = 200, response_text = Inr [],
         response_json = Inr (Some
           [\<lparr>question = ''2 + 2?'', answer = ''4'', distractors = [''3'', ''5'']\<rparr>])\<rparr>)\<rparr>"
  have 1: "snd (generateMCQsFromAPI ?failing ''The cell is the unit of life.'' 5)
      = Inl (Error ''Connection error: Server error (500): Internal Server Error'')
    \<and> length (filter is_HTTP_fetch
          (fst (generateMCQsFromAPI ?failing ''The cell is the unit of life.'' 5))) = 1"
    using C6_request_failure_throws_after_one_fetch
      [of ?failing "''The cell is the unit of life.''" 5]
    by (simp add: server_error_example)
  have 2: "generateMCQsFromAPI ?offline ''text'' 3
      = ([NetInfo_fetch],
         Inl (Error ''No internet connection. Please check your network and try again.''))"
    using C6_request_failure_throws_after_one_fetch [of ?offline "''text''" 3] by simp
  have 3: "snd (generateMCQsFromAPI ?answering ''text'' 3)
      = Inr [\<lparr>question = ''2 + 2?'', answer = ''4'', distractors = [''3'', ''5'']\<rparr>]"
    by (simp add: success_example)
  with C6_request_failure_throws_after_one_fetch [of ?answering "''text''" 3]
  have 4: "\<not> request_fails (race ?answering)" by blast
  from 1 2 3 4 show ?thesis by simp
qed

lemma timeout_example:
  "generateMCQsFromAPI \<lparr>isConnected = True, race = Timeout_first\<rparr> ''text'' 3
   = ([NetInfo_fetch, HTTP_fetch ''http://192.168.1.16:8000/generate-mcqs'' ''text'' 3],
      Inl (Error ''The server took too long to respond. Try with a shorter text or fewer questions.''))"
  by code_simp

subsection \<open>The progress socket\<close>

lemma invariant_start: "socket_invariant (processFileWithWebSocket_start r)"
  by (simp add: socket_invariant_def processFileWithWebSocket_start_def split: sum.splits)

lemma invariant_step:
  "socket_invariant s \<Longrightarrow> step e s = Some s' \<Longrightarrow> socket_invariant s'"
  by (cases e)
    (auto simp: socket_invariant_def ws_onopen_def onOpen_def sendMessage_def ws_onmessage_def
      onMessage_def ws_onerror_def onError_def ws_onclose_def onClose_def onTimeout_def
      resolve_def reject_def disconnect_def
      split: if_splits option.splits)

lemma invariant_run:
  "socket_invariant s \<Longrightarrow> run es s = Some s' \<Longrightarrow> socket_invariant s'"
proof (induction es arbitrary: s)
  case Nil
  then show ?case by simp
next
  case (Cons e es)
  then show ?case
    by (auto split: option.splits dest: invariant_step)
qed

lemma open_is_pending:
  "run es (processFileWithWebSocket_start r) = Some s \<Longrightarrow> ws s = Some OPEN \<Longrightarrow> promise s = Pending"
  using invariant_run [OF invariant_start, of es r s] by (simp add: socket_invariant_def)

lemma settled_step: "promise s \<noteq> Pending \<Longrightarrow> step e s = Some s' \<Longrightarrow> promise s' = promise s"
  by (cases e)
    (auto simp: ws_onopen_def onOpen_def sendMessage_def ws_onmessage_def
      onMessage_def ws_onerror_def onError_def ws_onclose_def onClose_def onTimeout_def
      resolve_def reject_def disconnect_def
      split: if_splits option.splits)

lemma settled_run: "promise s \<noteq> Pending \<Longrightarrow> run es s = Some s' \<Longrightarrow> promise s' = promise s"
proof (induction es arbitrary: s)
  case Nil
  then show ?case by simp
next
  case (Cons e es)
  from Cons.prems(2) obtain s1 where s1: "step e s = Some s1" "run es s1 = Some s'"
    by (auto split: option.splits)
  from settled_step [OF Cons.prems(1) s1(1)] have eq: "promise s1 = promise s" .
  with Cons.prems(1) have "promise s1 \<noteq> Pending" by simp
  from Cons.IH [OF this s1(2)] eq show ?case by simp
qed

lemma run_append:
  "run (es @ es') s = (case run es s of None \<Rightarrow> None | Some s' \<Rightarrow> run es' s')"
  by (induction es arbitrary: s) (simp_all split: option.splits)

lemma complete_message:
  assumes "data_status d = Some ''complete''" "step (Socket_message (Some d)) s = Some s'"
  shows "ws s' \<noteq> Some OPEN" "promise s' \<noteq> Pending" "promise s = Pending \<Longrightarrow> promise s' = Resolved d"
    "ws s' = Some CLOSING"
  using assms
  by (auto simp: ws_onmessage_def onMessage_def resolve_def disconnect_def split: if_splits)

lemma error_message:
  assumes "data_status d = Some ''error''" "step (Socket_message (Some d)) s = Some s'"
  shows "ws s' \<noteq> Some OPEN" "promise s' \<noteq> Pending"
    "promise s = Pending \<Longrightarrow> promise s' = Rejected (Error (case data_message d of
                            None \<Rightarrow> ''Error processing file''
                          | Some m \<Rightarrow> if m = [] then ''Error processing file'' else m))"
    "ws s' = Some CLOSING"
  using assms
  by (auto simp: ws_onmessage_def onMessage_def reject_def disconnect_def split: if_splits)

lemma socket_error:
  assumes "step Socket_error s = Some s'"
  shows "ws s' \<noteq> Some OPEN" "promise s' \<noteq> Pending"
    "promise s = Pending \<Longrightarrow> promise s' = Rejected (Error ''WebSocket error: Connection failed'')"
  using assms
  by (auto simp: ws_onerror_def onError_def reject_def disconnect_def split: if_splits)

lemma onError_not_open: "ws (onError s) \<noteq> Some OPEN"
  by (simp add: onError_def reject_def disconnect_def)

lemma timer_fires:
  assumes "ws s = Some OPEN" "step Timer_fires s = Some s'"
  shows "ws s' = Some CLOSING" "promise s' \<noteq> Pending"
    "promise s = Pending \<Longrightarrow> promise s' = Rejected (Error ''File processing timed out after 60 seconds'')"
  using assms
  by (auto simp: onTimeout_def reject_def disconnect_def split: if_splits)


lemma callbacks_settle:
  "data_status data = Some ''complete'' \<or> data_status data = Some ''error'' \<Longrightarrow>
     ws (onMessage data s) \<noteq> Some OPEN \<and> promise (onMessage data s) \<noteq> Pending"
  "ws (onError s) \<noteq> Some OPEN \<and> promise (onError s) \<noteq> Pending"
  "ws s = Some OPEN \<Longrightarrow> ws (onTimeout s) = Some CLOSING \<and> promise (onTimeout s) \<noteq> Pending"
  by (auto simp: onMessage_def onError_def onTimeout_def resolve_def reject_def disconnect_def)

text \<open>
  Claim C7. In every state a run of processFileWithWebSocket reaches: a message with
  status complete leaves the socket closing and the promise settled, resolved with the
  message data when the socket was open; a message with status error leaves the socket
  closing and the promise settled, rejected with the message's error when the socket was
  open; a socket error leaves the socket not open and the promise settled, rejected by it
  when it was pending; the timer, set to 60000 ms, finding the socket open, closes it and
  rejects the promise with the timeout error; and once the promise is settled the socket
  is not open, and is not opened again. The callbacks themselves, run in any state at
  all, leave the socket not open and the promise settled.
\<close>

theorem C7_socket_torn_down_and_promise_settled:
  assumes "run events (processFileWithWebSocket_start (Inr base64Data)) = Some s"
      and "step event s = Some s'"
  shows "(\<forall>data. event = Socket_message (Some data) \<and> data_status data = Some ''complete'' \<longrightarrow>
            ws s' = Some CLOSING \<and> promise s' \<noteq> Pending
          \<and> (ws s = Some OPEN \<longrightarrow> promise s' = Resolved data))
       \<and> (\<forall>data. event = Socket_message (Some data) \<and> data_status data = Some ''error'' \<longrightarrow>
            ws s' = Some CLOSING \<and> promise s' \<noteq> Pending
          \<and> (ws s = Some OPEN \<longrightarrow>
                promise s' = Rejected (Error (case data_message data of
                    None \<Rightarrow> ''Error processing file''
                  | Some m \<Rightarrow> if m = [] then ''Error processing file'' else m))))
       \<and> (event = Socket_error \<longrightarrow>
            ws s' \<noteq> Some OPEN \<and> promise s' \<noteq> Pending
          \<and> (promise s = Pending \<longrightarrow>
                promise s' = Rejected (Error ''WebSocket error: Connection failed'')))
       \<and> (event = Timer_fires \<and> ws s = Some OPEN \<longrightarrow>
            ws s' = Some CLOSING
          \<and> promise s' = Rejected (Error ''File processing timed out after 60 seconds''))
       \<and> (promise s \<noteq> Pending \<longrightarrow> ws s \<noteq> Some OPEN \<and> ws s' \<noteq> Some OPEN \<and> promise s' = promise s)
       \<and> timer (processFileWithWebSocket_start (Inr base64Data)) = Some 60000
       \<and> (\<forall>s0 data. data_status data = Some ''complete'' \<or> data_status data = Some ''error'' \<longrightarrow>
            ws (onMessage data s0) \<noteq> Some OPEN \<and> promise (onMessage data s0) \<noteq> Pending)
       \<and> (\<forall>s0. ws (onError s0) \<noteq> Some OPEN \<and> promise (onError s0) \<noteq> Pending)
       \<and> (\<forall>s0. ws s0 = Some OPEN \<longrightarrow>
            ws (onTimeout s0) = Some CLOSING \<and> promise (onTimeout s0) \<noteq> Pending)"
proof -
  note pending = open_is_pending [OF assms(1)]
  have reach': "run (events @ [event]) (processFileWithWebSocket_start (Inr base64Data)) = Some s'"
    using assms by (simp add: run_append)
  have A: "ws s' = Some CLOSING \<and> promise s' \<noteq> Pending
          \<and> (ws s = Some OPEN \<longrightarrow> promise s' = Resolved data)"
    if "event = Socket_message (Some data)" "data_status data = Some ''complete''" for data
    using complete_message [OF that(2), of s s'] assms(2) that(1) pending by auto
  have B: "ws s' = Some CLOSING \<and> promise s' \<noteq> Pending
          \<and> (ws s = Some OPEN \<longrightarrow>
                promise s' = Rejected (Error (case data_message data of
                    None \<Rightarrow> ''Error processing file''
                  | Some m \<Rightarrow> if m = [] then ''Error processing file'' else m)))"
    if "event = Socket_message (Some data)" "data_status data = Some ''error''" for data
    using error_message [OF that(2), of s s'] assms(2) that(1) pending by auto
  have C: "ws s' \<noteq> Some OPEN \<and> promise s' \<noteq> Pending
          \<and> (promise s = Pending \<longrightarrow>
                promise s' = Rejected (Error ''WebSocket error: Connection failed''))"
    if "event = Socket_error"
    using socket_error [of s s'] assms(2) that by auto
  have D: "ws s' = Some CLOSING
          \<and> promise s' = Rejected (Error ''File processing timed out after 60 seconds'')"
    if "event = Timer_fires" "ws s = Some OPEN"
    using timer_fires [OF that(2), of s'] assms(2) that(1) pending [OF that(2)] by auto
  have E: "ws s \<noteq> Some OPEN \<and> ws s' \<noteq> Some OPEN \<and> promise s' = promise s" if "promise s \<noteq> Pending"
  proof -
    have "promise s' = promise s"
      using that assms(2) by (rule settled_step)
    moreover from this that have "ws s' \<noteq> Some OPEN"
      using open_is_pending [OF reach'] by auto
    moreover have "ws s \<noteq> Some OPEN"
      using pending that by auto
    ultimately show ?thesis by simp
  qed
  have F: "timer (processFileWithWebSocket_start (Inr base64Data)) = Some 60000"
    by (simp add: processFileWithWebSocket_start_def)
  have G: "\<forall>s0 data. data_status data = Some ''complete'' \<or> data_status data = Some ''error'' \<longrightarrow>
            ws (onMessage data s0) \<noteq> Some OPEN \<and> promise (onMessage data s0) \<noteq> Pending"
    using callbacks_settle(1) by blast
  have H: "\<forall>s0. ws (onError s0) \<noteq> Some OPEN \<and> promise (onError s0) \<noteq> Pending"
    using callbacks_settle(2) by blast
  have I: "\<forall>s0. ws s0 = Some OPEN \<longrightarrow>
            ws (onTimeout s0) = Some CLOSING \<and> promise (onTimeout s0) \<noteq> Pending"
    using callbacks_settle(3) by blast
  from A B C D E F have "(\<forall>data. event = Socket_message (Some data) \<and> data_status data = Some ''complete'' \<longrightarrow>
            ws s' = Some CLOSING \<and> promise s' \<noteq> Pending
          \<and> (ws s = Some OPEN \<longrightarrow> promise s' = Resolved data))
       \<and> (\<forall>data. event = Socket_message (Some data) \<and> data_status data = Some ''error'' \<longrightarrow>
            ws s' = Some CLOSING \<and> promise s' \<noteq> Pending
          \<and> (ws s = Some OPEN \<longrightarrow>
                promise s' = Rejected (Error (case data_message data of
                    None \<Rightarrow> ''Error processing file''
                  | Some m \<Rightarrow> if m = [] then ''Error processing file'' else m))))
       \<and> (event = Socket_error \<longrightarrow>
            ws s' \<noteq> Some OPEN \<and> promise s' \<noteq> Pending
          \<and> (promise s = Pending \<longrightarrow>
                promise s' = Rejected (Error ''WebSocket error: Connection failed'')))
       \<and> (event = Timer_fires \<and> ws s = Some OPEN \<longrightarrow>
            ws s' = Some CLOSING
          \<and> promise s' = Rejected (Error ''File processing timed out after 60 seconds''))
       \<and> (promise s \<noteq> Pending \<longrightarrow> ws s \<noteq> Some OPEN \<and> ws s' \<noteq> Some OPEN \<and> promise s' = promise s)
       \<and> timer (processFileWithWebSocket_start (Inr base64Data)) = Some 60000"
    by blast
  with G H I show ?thesis by blast
qed

text \<open>
  A run: the socket opens and the command is sent, a progress message arrives; then, in
  turn, each way the run can end from there, and a failure to connect.
\<close>

lemma run_open_example:
  "run [Socket_open, Socket_message (Some \<lparr>data_status = Some ''processing'', data_message = None\<rparr>)]
     (processFileWithWebSocket_start (Inr ''JVBERi0='')) =
   Some \<lparr>ws = Some OPEN, promise = Pending, sent = 1, timer = Some 60000\<rparr>"
  by (simp add: processFileWithWebSocket_start_def ws_onopen_def onOpen_def sendMessage_def
      ws_onmessage_def onMessage_def)

lemma run_start_example:
  "run [] (processFileWithWebSocket_start (Inr ''JVBERi0='')) =
   Some \<lparr>ws = Some CONNECTING, promise = Pending, sent = 0, timer = Some 60000\<rparr>"
  by (simp add: processFileWithWebSocket_start_def)

lemma run_complete_example:
  "run [Socket_open, Socket_message (Some \<lparr>data_status = Some ''complete'', data_message = None\<rparr>)]
     (processFileWithWebSocket_start (Inr ''JVBERi0='')) =
   Some \<lparr>ws = Some CLOSING,
          promise = Resolved \<lparr>data_status = Some ''complete'', data_message = None\<rparr>,
          sent = 1, timer = Some 60000\<rparr>"
  by (simp add: processFileWithWebSocket_start_def ws_onopen_def onOpen_def sendMessage_def
      ws_onmessage_def onMessage_def resolve_def disconnect_def)

lemma step_complete_example:
  "step (Socket_message (Some \<lparr>data_status = Some ''complete'', data_message = None\<rparr>))
     \<lparr>ws = Some OPEN, promise = Pending, sent = 1, timer = Some 60000\<rparr>
   = Some \<lparr>ws = Some CLOSING,
          promise = Resolved \<lparr>data_status = Some ''complete'', data_message = None\<rparr>,
          sent = 1, timer = Some 60000\<rparr>"
  by (simp add: ws_onmessage_def onMessage_def resolve_def disconnect_def)

lemma step_error_message_example:
  "step (Socket_message (Some \<lparr>data_status = Some ''error'', data_message = Some ''Unsupported file''\<rparr>))
     \<lparr>ws = Some OPEN, promise = Pending, sent = 1, timer = Some 60000\<rparr>
   = Some \<lparr>ws = Some CLOSING, promise = Rejected (Error ''Unsupported file''),
          sent = 1, timer = Some 60000\<rparr>"
  by (simp add: ws_onmessage_def onMessage_def reject_def disconnect_def)

lemma step_socket_error_example:
  "step Socket_error \<lparr>ws = Some CONNECTING, promise = Pending, sent = 0, timer = Some 60000\<rparr>
   = Some \<lparr>ws = Some CLOSED, promise = Rejected (Error ''WebSocket error: Connection failed''),
          sent = 0, timer = Some 60000\<rparr>"
  by (simp add: ws_onerror_def onError_def reject_def disconnect_def)

lemma step_timer_example:
  "step Timer_fires \<lparr>ws = Some OPEN, promise = Pending, sent = 1, timer = Some 60000\<rparr>
   = Some \<lparr>ws = Some CLOSING,
          promise = Rejected (Error ''File processing timed out after 60 seconds''),
          sent = 1, timer = None\<rparr>"
  by (simp add: onTimeout_def reject_def disconnect_def)

lemma step_late_timer_example:
  "step Timer_fires
     \<lparr>ws = Some CLOSING,
      promise = Resolved \<lparr>data_status = Some ''complete'', data_message = None\<rparr>,
      sent = 1, timer = Some 60000\<rparr>
   = Some \<lparr>ws = Some CLOSING,
          promise = Resolved \<lparr>data_status = Some ''complete'', data_message = None\<rparr>,
          sent = 1, timer = None\<rparr>"
  by (simp add: onTimeout_def)

theorem C7_witness:
  "run [Socket_open, Socket_message (Some \<lparr>data_status = Some ''processing'', data_message = None\<rparr>)]
     (processFileWithWebSocket_start (Inr ''JVBERi0='')) =
   Some \<lparr>ws = Some OPEN, promise = Pending, sent = 1, timer = Some 60000\<rparr>
 \<and> step (Socket_message (Some \<lparr>data_status = Some ''complete'', data_message = None\<rparr>))
     \<lparr>ws = Some OPEN, promise = Pending, sent = 1, timer = Some 60000\<rparr>
   = Some \<lparr>ws = Some CLOSING,
          promise = Resolved \<lparr>data_status = Some ''complete'', data_message = None\<rparr>,
          sent = 1, timer = Some 60000\<rparr>
 \<and> step (Socket_message (Some \<lparr>data_status = Some ''error'', data_message = Some ''Unsupported file''\<rparr>))
     \<lparr>ws = Some OPEN, promise = Pending, sent = 1, timer = Some 60000\<rparr>
   = Some \<lparr>ws = Some CLOSING, promise = Rejected (Error ''Unsupported file''),
          sent = 1, timer = Some 60000\<rparr>
 \<and> step Socket_error \<lparr>ws = Some CONNECTING, promise = Pending, sent = 0, timer = Some 60000\<rparr>
   = Some \<lparr>ws = Some CLOSED, promise = Rejected (Error ''WebSocket error: Connection failed''),
          sent = 0, timer = Some 60000\<rparr>
 \<and> step Timer_fires \<lparr>ws = Some OPEN, promise = Pending, sent = 1, timer = Some 60000\<rparr>
   = Some \<lparr>ws = Some CLOSING,
          promise = Rejected (Error ''File processing timed out after 60 seconds''),
          sent = 1, timer = None\<rparr>
 \<and> step Timer_fires
     \<lparr>ws = Some CLOSING,
      promise = Resolved \<lparr>data_status = Some ''complete'', data_message = None\<rparr>,
      sent = 1, timer = Some 60000\<rparr>
   = Some \<lparr>ws = Some CLOSING,
          promise = Resolved \<lparr>data_status = Some ''complete'', data_message = None\<rparr>,
          sent = 1, timer = None\<rparr>"
proof -
  note at_state = C7_socket_torn_down_and_promise_settled
  have "promise \<lparr>ws = Some CLOSING,
          promise = Resolved \<lparr>data_status = Some ''complete'', data_message = None\<rparr>,
          sent = 1, timer = Some 60000\<rparr>
      = Resolved \<lparr>data_status = Some ''complete'', data_message = None\<rparr>"
    using at_state [OF run_open_example step_complete_example] by simp
  moreover have "promise \<lparr>ws = Some CLOSING, promise = Rejected (Error ''Unsupported file''),
          sent = 1, timer = Some 60000\<rparr> = Rejected (Error ''Unsupported file'')"
    using at_state [OF run_open_example step_error_message_example] by simp
  moreover have "promise \<lparr>ws = Some CLOSED,
          promise = Rejected (Error ''WebSocket error: Connection failed''),
          sent = 0, timer = Some 60000\<rparr>
      = Rejected (Error ''WebSocket error: Connection failed'')"
    using at_state [OF run_start_example step_socket_error_example] by simp
  moreover have "promise \<lparr>ws = Some CLOSING,
          promise = Rejected (Error ''File processing timed out after 60 seconds''),
          sent = 1, timer = None\<rparr>
      = Rejected (Error ''File processing timed out after 60 seconds'')"
    using at_state [OF run_open_example step_timer_example] by simp
  moreover have "ws \<lparr>ws = Some CLOSING,
          promise = Resolved \<lparr>data_status = Some ''complete'', data_message = None\<rparr>,
          sent = 1, timer = None\<rparr> \<noteq> Some OPEN"
    using at_state [OF run_complete_example step_late_timer_example] by simp
  ultimately show ?thesis
    using run_open_example step_complete_example step_error_message_example
      step_socket_error_example step_timer_example step_late_timer_example
    by blast
qed

end
